theory Spec2Isabelle
  imports Complex_Main "HOL-Library.Sublist"
begin

section \<open>JavaScript values used by the worker\<close>

text \<open>
  The analysis worker (\<^verbatim>\<open>worker-hf.js\<close>) is untyped JavaScript: every value that reaches
  the aggregator or a pipeline is whatever a JSON response carried. The embedding
  therefore works on JSON values.

  \<^item> A number is an IEEE double. Finite doubles are modelled by the rational they denote
    and arithmetic on them is exact (the rounding of intermediate results to 53 bits is
    not modelled); the three non-finite doubles are kept, since \<^verbatim>\<open>NaN\<close> is falsy and
    poisons sums.
  \<^item> A string is the list of its code units; code units are 8-bit (Latin-1).
  \<^item> An object is the list of its own properties in enumeration order; a JavaScript
    object has no two properties of the same name.
  \<^item> \<^verbatim>\<open>undefined\<close> is not a JSON value: a property lookup returns an \<open>option\<close>.
\<close>

datatype jsnum = Fin rat | PInf | NInf | NaN

datatype json =
    JNull
  | JBool bool
  | JNum jsnum
  | JStr string
  | JArr "json list"
  | JObj "(string \<times> json) list"

text \<open>A thrown value: \<^verbatim>\<open>undefined\<close>, or an error object with its name and message.\<close>

datatype thrown = Undefined | Err string string

text \<open>
  What the JavaScript runtime supplies and the repository does not define: the rendering
  of a number that is not a small integer (\<^verbatim>\<open>Number.prototype.toString\<close>), the reading of
  a string as a number (\<^verbatim>\<open>StringToNumber\<close>), \<^verbatim>\<open>JSON.parse\<close> (\<open>None\<close> when it raises a
  \<^verbatim>\<open>SyntaxError\<close>), and \<^verbatim>\<open>path.join\<close> and \<^verbatim>\<open>path.basename\<close> of Node. They are parameters
  of the model; every theorem holds for every runtime.
\<close>

record runtime =
  fracToString :: "rat \<Rightarrow> string"
  strToNum :: "string \<Rightarrow> jsnum"
  jsonParse :: "string \<Rightarrow> json option"
  pathJoin :: "string \<Rightarrow> string \<Rightarrow> string"
  pathBasename :: "string \<Rightarrow> string"

subsection \<open>Truthiness and property access\<close>

fun numTruthy :: "jsnum \<Rightarrow> bool" where
  "numTruthy (Fin q) = (q \<noteq> 0)"
| "numTruthy PInf = True"
| "numTruthy NInf = True"
| "numTruthy NaN = False"

fun truthy :: "json \<Rightarrow> bool" where
  "truthy JNull = False"
| "truthy (JBool b) = b"
| "truthy (JNum n) = numTruthy n"
| "truthy (JStr s) = (s \<noteq> [])"
| "truthy (JArr xs) = True"
| "truthy (JObj kvs) = True"

text \<open>
  \<^verbatim>\<open>v.name\<close> for a property name that no prototype defines (\<^verbatim>\<open>classifier\<close>, \<^verbatim>\<open>label\<close>,
  \<^verbatim>\<open>score\<close>, \<^verbatim>\<open>status\<close>, ...): only an object can have it; on a string, number, boolean
  or array the lookup is \<^verbatim>\<open>undefined\<close>. It is never applied to \<^verbatim>\<open>null\<close> without a guard
  in the code modelled here, except where the model says so.
\<close>

fun getProp :: "json \<Rightarrow> string \<Rightarrow> json option" where
  "getProp (JObj kvs) k = map_of kvs k"
| "getProp v k = None"

fun truthyOpt :: "json option \<Rightarrow> bool" where
  "truthyOpt None = False"
| "truthyOpt (Some v) = truthy v"

subsection \<open>Strings\<close>

definition toLowerChar :: "char \<Rightarrow> char" where
  "toLowerChar c = (let n = (of_char c :: nat) in
     if (65 \<le> n \<and> n \<le> 90) \<or> (192 \<le> n \<and> n \<le> 222 \<and> n \<noteq> 215)
     then char_of (n + 32) else c)"

definition toLowerCase :: "string \<Rightarrow> string" where
  "toLowerCase s = map toLowerChar s"

text \<open>\<^verbatim>\<open>s.includes(sub)\<close>: \<open>sub\<close> occurs in \<open>s\<close> as a contiguous substring.\<close>

fun includesStr :: "string \<Rightarrow> string \<Rightarrow> bool" where
  "includesStr [] sub = (sub = [])"
| "includesStr (c # cs) sub = (prefix sub (c # cs) \<or> includesStr cs sub)"

fun digitChar :: "nat \<Rightarrow> char" where
  "digitChar n = (''0123456789abcdef'') ! (n mod 16)"

fun natToString :: "nat \<Rightarrow> string" where
  "natToString n = (if n < 10 then [digitChar n] else natToString (n div 10) @ [digitChar (n mod 10)])"

declare natToString.simps [simp del]

text \<open>
  \<^verbatim>\<open>Number.prototype.toString\<close>: an integer of magnitude below \<open>10^21\<close> is written in plain
  decimal digits; any other finite number is rendered by the runtime.
\<close>

fun numToString :: "runtime \<Rightarrow> jsnum \<Rightarrow> string" where
  "numToString rt (Fin q) =
     (case quotient_of q of (a, b) \<Rightarrow>
        if b = 1 \<and> \<bar>a\<bar> < 10 ^ 21
        then (if a < 0 then ''-'' else '''') @ natToString (nat \<bar>a\<bar>)
        else fracToString rt q)"
| "numToString rt PInf = ''Infinity''"
| "numToString rt NInf = ''-Infinity''"
| "numToString rt NaN = ''NaN''"

text \<open>
  \<^verbatim>\<open>ToString\<close> of a JSON value, as \<^verbatim>\<open>.toString()\<close>, \<^verbatim>\<open>Array.prototype.join\<close> and a
  numeric coercion apply it. An array joins its elements with commas, \<^verbatim>\<open>null\<close> elements
  as the empty string. An object inherits \<^verbatim>\<open>Object.prototype.toString\<close>, unless it has an
  own property named \<^verbatim>\<open>toString\<close>: a JSON value is never callable, so the conversion
  raises a \<^verbatim>\<open>TypeError\<close>.
\<close>

definition hasOwn :: "(string \<times> json) list \<Rightarrow> string \<Rightarrow> bool" where
  "hasOwn kvs k = (map_of kvs k \<noteq> None)"

definition notPrimitive :: thrown where
  "notPrimitive = Err ''TypeError'' ''Cannot convert object to primitive value''"

fun toStr :: "runtime \<Rightarrow> json \<Rightarrow> thrown + string"
  and joinStr :: "runtime \<Rightarrow> json list \<Rightarrow> thrown + string" where
  "toStr rt JNull = Inr ''null''"
| "toStr rt (JBool b) = Inr (if b then ''true'' else ''false'')"
| "toStr rt (JNum n) = Inr (numToString rt n)"
| "toStr rt (JStr s) = Inr s"
| "toStr rt (JArr xs) = joinStr rt xs"
| "toStr rt (JObj kvs) = (if hasOwn kvs ''toString'' then Inl notPrimitive else Inr ''[object Object]'')"
| "joinStr rt [] = Inr ''''"
| "joinStr rt (x # xs) =
     (case (if x = JNull then Inr '''' else toStr rt x) of
        Inl e \<Rightarrow> Inl e
      | Inr s \<Rightarrow>
          (if xs = [] then Inr s
           else case joinStr rt xs of Inl e \<Rightarrow> Inl e | Inr r \<Rightarrow> Inr (s @ '','' @ r)))"

text \<open>\<^verbatim>\<open>best.label.toString()\<close>: the method call on a truthy label.\<close>

fun labelToString :: "runtime \<Rightarrow> json \<Rightarrow> thrown + string" where
  "labelToString rt (JObj kvs) =
     (if hasOwn kvs ''toString''
      then Inl (Err ''TypeError'' ''best.label.toString is not a function'')
      else Inr ''[object Object]'')"
| "labelToString rt v = toStr rt v"

text \<open>\<^verbatim>\<open>ToNumber\<close>, as the multiplication \<^verbatim>\<open>best.score * 100\<close> applies it to its operand.\<close>

fun toNumber :: "runtime \<Rightarrow> json \<Rightarrow> thrown + jsnum" where
  "toNumber rt JNull = Inr (Fin 0)"
| "toNumber rt (JBool b) = Inr (Fin (if b then 1 else 0))"
| "toNumber rt (JNum n) = Inr n"
| "toNumber rt (JStr s) = Inr (strToNum rt s)"
| "toNumber rt (JArr xs) = (case joinStr rt xs of Inl e \<Rightarrow> Inl e | Inr s \<Rightarrow> Inr (strToNum rt s))"
| "toNumber rt (JObj kvs) = (if hasOwn kvs ''toString'' then Inl notPrimitive else Inr NaN)"

subsection \<open>Numbers\<close>

fun times100 :: "jsnum \<Rightarrow> jsnum" where
  "times100 (Fin q) = Fin (q * 100)"
| "times100 n = n"

text \<open>\<^verbatim>\<open>Math.round\<close> rounds to the nearest integer, a half upwards.\<close>

definition roundHalfUp :: "rat \<Rightarrow> int" where
  "roundHalfUp q = \<lfloor>q + 1 / 2\<rfloor>"

fun mathRound :: "jsnum \<Rightarrow> jsnum" where
  "mathRound (Fin q) = Fin (of_int (roundHalfUp q))"
| "mathRound n = n"

fun jsPlus :: "jsnum \<Rightarrow> jsnum \<Rightarrow> jsnum" where
  "jsPlus (Fin a) (Fin b) = Fin (a + b)"
| "jsPlus NaN n = NaN"
| "jsPlus n NaN = NaN"
| "jsPlus PInf NInf = NaN"
| "jsPlus NInf PInf = NaN"
| "jsPlus PInf n = PInf"
| "jsPlus n PInf = PInf"
| "jsPlus NInf n = NInf"
| "jsPlus n NInf = NInf"

text \<open>Division by a positive array length.\<close>

fun divLength :: "jsnum \<Rightarrow> nat \<Rightarrow> jsnum" where
  "divLength (Fin q) n = Fin (q / of_nat n)"
| "divLength m n = m"

subsection \<open>\<^verbatim>\<open>JSON.stringify\<close>\<close>

definition hex2 :: "nat \<Rightarrow> string" where
  "hex2 n = [digitChar (n div 16), digitChar (n mod 16)]"

definition quoteChar :: "char \<Rightarrow> string" where
  "quoteChar c = (let n = (of_char c :: nat) in
     if n = 34 then [CHR 0x5C, CHR 0x22]
     else if n = 92 then [CHR 0x5C, CHR 0x5C]
     else if n = 8 then [CHR 0x5C, CHR ''b'']
     else if n = 12 then [CHR 0x5C, CHR ''f'']
     else if n = 10 then [CHR 0x5C, CHR ''n'']
     else if n = 13 then [CHR 0x5C, CHR ''r'']
     else if n = 9 then [CHR 0x5C, CHR ''t'']
     else if n < 32 then [CHR 0x5C, CHR ''u'', CHR ''0'', CHR ''0''] @ hex2 n
     else [c])"

definition quoteString :: "string \<Rightarrow> string" where
  "quoteString s = [CHR 0x22] @ concat (map quoteChar s) @ [CHR 0x22]"

fun stringifyNum :: "runtime \<Rightarrow> jsnum \<Rightarrow> string" where
  "stringifyNum rt (Fin q) = numToString rt (Fin q)"
| "stringifyNum rt n = ''null''"

fun stringify :: "runtime \<Rightarrow> json \<Rightarrow> string"
  and stringifyElems :: "runtime \<Rightarrow> json list \<Rightarrow> string"
  and stringifyProps :: "runtime \<Rightarrow> (string \<times> json) list \<Rightarrow> string" where
  "stringify rt JNull = ''null''"
| "stringify rt (JBool b) = (if b then ''true'' else ''false'')"
| "stringify rt (JNum n) = stringifyNum rt n"
| "stringify rt (JStr s) = quoteString s"
| "stringify rt (JArr xs) = ''['' @ stringifyElems rt xs @ '']''"
| "stringify rt (JObj kvs) = ''{'' @ stringifyProps rt kvs @ ''}''"
| "stringifyElems rt [] = ''''"
| "stringifyElems rt (x # xs) =
     stringify rt x @ (if xs = [] then '''' else '','' @ stringifyElems rt xs)"
| "stringifyProps rt [] = ''''"
| "stringifyProps rt ((k, v) # kvs) =
     quoteString k @ '':'' @ stringify rt v @ (if kvs = [] then '''' else '','' @ stringifyProps rt kvs)"

section \<open>The aggregator\<close>

text \<open>
  \<^verbatim>\<open>aggregateFrameResults\<close> (worker-hf.js, section "aggregation"). The loop body is
  \<open>frameStep\<close>; its state is the pair of \<^verbatim>\<open>fakeVotes\<close> and \<^verbatim>\<open>confidences\<close>.

  The ratio is kept as the exact quotient and the thresholds as the fractions 4/10 and
  1/10. An array has fewer than \<open>2^32\<close> entries, so a quotient other than the fraction
  differs from it by far more than a double's rounding error, and the quotient that equals
  the fraction rounds to the very double the literal denotes: the two comparisons of the
  code come out as they do here.
\<close>

datatype verdict = LikelyFake | LikelyReal | Inconclusive

record aggregate =
  verdict :: verdict
  confidence :: jsnum
  ratio :: rat
  fakeVotes :: nat
  total :: nat
  avgConf :: "jsnum option"

definition fakeWords :: "string \<Rightarrow> bool" where
  "fakeWords t = (includesStr t ''fake'' \<or> includesStr t ''synthetic'' \<or> includesStr t ''manipul'')"

text \<open>
  The guard of the structured branch:
  \<^verbatim>\<open>fr.classifier && Array.isArray(fr.classifier)\<close>, then \<^verbatim>\<open>best = fr.classifier[0]\<close>
  and \<^verbatim>\<open>best && best.label\<close>. It yields \<open>best\<close> and its label when all of it holds.
\<close>

definition structuredBest :: "json \<Rightarrow> (json \<times> json) option" where
  "structuredBest fr =
     (case getProp fr ''classifier'' of
        Some (JArr (best # rest)) \<Rightarrow>
          (if truthy best
           then (case getProp best ''label'' of
                   Some lab \<Rightarrow> if truthy lab then Some (best, lab) else None
                 | None \<Rightarrow> None)
           else None)
      | _ \<Rightarrow> None)"

definition structuredStep :: "runtime \<Rightarrow> json \<Rightarrow> json \<Rightarrow> nat \<times> jsnum list \<Rightarrow> thrown + nat \<times> jsnum list" where
  "structuredStep rt best lab st =
     (case labelToString rt lab of
        Inl e \<Rightarrow> Inl e
      | Inr s \<Rightarrow>
          (let votes = (if fakeWords (toLowerCase s) then fst st + 1 else fst st) in
           case getProp best ''score'' of
             None \<Rightarrow> Inr (votes, snd st)
           | Some sc \<Rightarrow>
               if truthy sc
               then (case toNumber rt sc of
                       Inl e \<Rightarrow> Inl e
                     | Inr n \<Rightarrow> Inr (votes, snd st @ [mathRound (times100 n)]))
               else Inr (votes, snd st)))"

text \<open>
  The pattern \<^verbatim>\<open>/confidence[:=]\s*(\d{1,3})/\<close>: the leftmost position where the word is
  followed by a colon or an equals sign, any white space, and one to three digits
  (as many as there are, up to three).
\<close>

definition isSpace :: "char \<Rightarrow> bool" where
  "isSpace c = (c \<in> set [CHR 0x09, CHR 0x0A, CHR 0x0B, CHR 0x0C, CHR 0x0D, CHR 0x20, CHR 0xA0])"

definition isDigit :: "char \<Rightarrow> bool" where
  "isDigit c = (c \<in> set ''0123456789'')"

definition decimal :: "string \<Rightarrow> nat" where
  "decimal ds = foldl (\<lambda>n c. 10 * n + (of_char c - 48)) 0 ds"

definition matchHere :: "string \<Rightarrow> nat option" where
  "matchHere s =
     (if prefix ''confidence'' s
      then (case drop 10 s of
              [] \<Rightarrow> None
            | d # r \<Rightarrow>
                if d = CHR '':'' \<or> d = CHR ''=''
                then (let ds = take 3 (takeWhile isDigit (dropWhile isSpace r))
                      in if ds = [] then None else Some (decimal ds))
                else None)
      else None)"

fun matchConfidence :: "string \<Rightarrow> nat option" where
  "matchConfidence [] = None"
| "matchConfidence (c # cs) =
     (case matchHere (c # cs) of Some n \<Rightarrow> Some n | None \<Rightarrow> matchConfidence cs)"

definition textStep :: "string \<Rightarrow> nat \<times> jsnum list \<Rightarrow> nat \<times> jsnum list" where
  "textStep fr st =
     (let t = toLowerCase fr;
          votes = (if fakeWords t then fst st + 1 else fst st)
      in case matchConfidence t of
           Some n \<Rightarrow> (votes, snd st @ [Fin (of_nat n)])
         | None \<Rightarrow> (votes, snd st))"

definition fallbackStep :: "runtime \<Rightarrow> json \<Rightarrow> nat \<times> jsnum list \<Rightarrow> nat \<times> jsnum list" where
  "fallbackStep rt fr st =
     (if fakeWords (toLowerCase (stringify rt fr)) then (fst st + 1, snd st) else st)"

definition frameStep :: "runtime \<Rightarrow> json \<Rightarrow> nat \<times> jsnum list \<Rightarrow> thrown + nat \<times> jsnum list" where
  "frameStep rt fr st =
     (if \<not> truthy fr then Inr st
      else case structuredBest fr of
             Some (best, lab) \<Rightarrow> structuredStep rt best lab st
           | None \<Rightarrow>
               (case fr of
                  JStr s \<Rightarrow> Inr (textStep s st)
                | _ \<Rightarrow> Inr (fallbackStep rt fr st)))"

fun frameLoop :: "runtime \<Rightarrow> json list \<Rightarrow> nat \<times> jsnum list \<Rightarrow> thrown + nat \<times> jsnum list" where
  "frameLoop rt [] st = Inr st"
| "frameLoop rt (fr # frs) st =
     (case frameStep rt fr st of Inl e \<Rightarrow> Inl e | Inr st' \<Rightarrow> frameLoop rt frs st')"

definition average :: "jsnum list \<Rightarrow> jsnum" where
  "average cs = divLength (foldl jsPlus (Fin 0) cs) (length cs)"

definition estimate :: "rat \<Rightarrow> rat" where
  "estimate r = min 100 (max 40 (r * 100 + 40))"

definition finish :: "nat \<Rightarrow> nat \<times> jsnum list \<Rightarrow> aggregate" where
  "finish len st =
     (let fakeVotes = fst st;
          confidences = snd st;
          total = (if len = 0 then 1 else len);
          ratio = of_nat fakeVotes / of_nat total;
          avgConf = (if confidences \<noteq> [] then Some (mathRound (average confidences)) else None);
          verdict = (if ratio > 4 / 10 then LikelyFake
                     else if ratio < 1 / 10 then LikelyReal else Inconclusive);
          confidence = (case avgConf of
                          Some a \<Rightarrow> if numTruthy a then a else Fin (of_int (roundHalfUp (estimate ratio)))
                        | None \<Rightarrow> Fin (of_int (roundHalfUp (estimate ratio))))
      in \<lparr>verdict = verdict, confidence = confidence, ratio = ratio,
          fakeVotes = fakeVotes, total = total, avgConf = avgConf\<rparr>)"

definition aggregateFrameResults :: "runtime \<Rightarrow> json list \<Rightarrow> thrown + aggregate" where
  "aggregateFrameResults rt frameResults =
     (case frameLoop rt frameResults (0, []) of
        Inl e \<Rightarrow> Inl e
      | Inr st \<Rightarrow> Inr (finish (length frameResults) st))"


section \<open>Effects: the world outside the worker\<close>

text \<open>
  The worker reaches the Report Store and the inference providers by HTTP, object storage
  through its client library, the local file system, the \<^verbatim>\<open>ffmpeg\<close> process and the clock.
  Each such call is recorded as an event; what it answers is decided by the environment,
  as an arbitrary function of the call and of all events before it. The properties below
  hold for every environment. HTTP headers other than the bearer credential, and request
  time-outs, are left out; console output is not modelled; every call answers (a promise
  that never settles is not modelled).
\<close>

datatype part = TextPart string | FilePart string

datatype call =
    Get string string
  | Patch string string json
  | PostJson string string json
  | PostForm string string "(string \<times> part) list"
  | Download string string string
  | Upload string string string
  | Mkdir string
  | WriteFile string json
  | Ffmpeg "string list"
  | Readdir string
  | Rm string
  | Now

datatype event = Called call | Slept nat

record env =
  http :: "event list \<Rightarrow> call \<Rightarrow> thrown + json"
  effect :: "event list \<Rightarrow> call \<Rightarrow> thrown option"
  exitCode :: "event list \<Rightarrow> call \<Rightarrow> int option"
  listing :: "event list \<Rightarrow> call \<Rightarrow> thrown + string list"
  clock :: "event list \<Rightarrow> call \<Rightarrow> nat"

text \<open>
  The state of a run: the events so far and the array \<^verbatim>\<open>toCleanup\<close> that \<^verbatim>\<open>run\<close> creates
  and the pipelines push to.
\<close>

record state =
  events :: "event list"
  toCleanup :: "string list"

type_synonym 'a io = "state \<Rightarrow> (thrown + 'a) \<times> state"

definition returnIO :: "'a \<Rightarrow> 'a io" where
  "returnIO x s = (Inr x, s)"

definition throwIO :: "thrown \<Rightarrow> 'a io" where
  "throwIO e s = (Inl e, s)"

definition bindIO :: "'a io \<Rightarrow> ('a \<Rightarrow> 'b io) \<Rightarrow> 'b io" where
  "bindIO m f s = (case m s of (Inl e, s') \<Rightarrow> (Inl e, s') | (Inr x, s') \<Rightarrow> f x s')"

definition catchIO :: "'a io \<Rightarrow> (thrown \<Rightarrow> 'a io) \<Rightarrow> 'a io" where
  "catchIO m h s = (case m s of (Inl e, s') \<Rightarrow> h e s' | (Inr x, s') \<Rightarrow> (Inr x, s'))"

definition liftIO :: "thrown + 'a \<Rightarrow> 'a io" where
  "liftIO r s = (r, s)"

definition record_call :: "call \<Rightarrow> state \<Rightarrow> state" where
  "record_call c s = s\<lparr>events := events s @ [Called c]\<rparr>"

definition httpCall :: "env \<Rightarrow> call \<Rightarrow> json io" where
  "httpCall e c s = (http e (events s) c, record_call c s)"

definition effectCall :: "env \<Rightarrow> call \<Rightarrow> unit io" where
  "effectCall e c s =
     (case effect e (events s) c of None \<Rightarrow> (Inr (), record_call c s)
      | Some err \<Rightarrow> (Inl err, record_call c s))"

definition nowCall :: "env \<Rightarrow> nat io" where
  "nowCall e s = (Inr (clock e (events s) Now), record_call Now s)"

definition pushCleanup :: "string \<Rightarrow> unit io" where
  "pushCleanup p s = (Inr (), s\<lparr>toCleanup := toCleanup s @ [p]\<rparr>)"

subsection \<open>The retry helper\<close>

text \<open>
  \<^verbatim>\<open>retry(fn, attempts = 3, baseDelay = 500)\<close>. The loop variable \<open>i\<close> counts up to
  \<open>attempts\<close>; \<^verbatim>\<open>lastErr\<close> starts as \<^verbatim>\<open>undefined\<close>; after each failed attempt, the last one
  included, the helper sleeps \<open>baseDelay * 2^i\<close> milliseconds.
\<close>

function retryFrom :: "'a io \<Rightarrow> nat \<Rightarrow> nat \<Rightarrow> nat \<Rightarrow> thrown \<Rightarrow> 'a io" where
  "retryFrom fn attempts baseDelay i lastErr s =
     (if i < attempts
      then (case fn s of
              (Inr v, s') \<Rightarrow> (Inr v, s')
            | (Inl err, s') \<Rightarrow>
                retryFrom fn attempts baseDelay (i + 1) err
                  (s'\<lparr>events := events s' @ [Slept (baseDelay * 2 ^ i)]\<rparr>))
      else (Inl lastErr, s))"
  by pat_completeness auto
termination
  by (relation "measure (\<lambda>(fn, attempts, baseDelay, i, lastErr, s). attempts - i)") auto

declare retryFrom.simps [simp del]

definition retry :: "'a io \<Rightarrow> nat \<Rightarrow> nat \<Rightarrow> 'a io" where
  "retry fn attempts baseDelay = retryFrom fn attempts baseDelay 0 Undefined"

subsection \<open>Configuration\<close>

text \<open>
  The constants read from the process environment at start-up. \<^verbatim>\<open>FPS\<close> and
  \<^verbatim>\<open>MAX_FRAMES\<close> are \<^verbatim>\<open>Number(...)\<close> of a string, so any number.
\<close>

record config =
  apiBase :: string
  serviceKey :: string
  gcsBucket :: string
  tempDir :: string
  hfApiKey :: string
  hfAuditModel :: string
  hfFrameClassifierModel :: string
  hfReportModel :: string
  framesPerSecond :: jsnum
  maxFrames :: jsnum

subsection \<open>Backend helpers\<close>

definition reportUrl :: "config \<Rightarrow> string \<Rightarrow> string" where
  "reportUrl cfg reportId = apiBase cfg @ ''/reports/'' @ reportId"

definition getReport :: "config \<Rightarrow> env \<Rightarrow> string \<Rightarrow> json io" where
  "getReport cfg e reportId =
     retry (httpCall e (Get (reportUrl cfg reportId) (serviceKey cfg))) 3 500"

definition patchReport :: "config \<Rightarrow> env \<Rightarrow> string \<Rightarrow> json \<Rightarrow> string \<Rightarrow> json io" where
  "patchReport cfg e reportId result status =
     retry (httpCall e (Patch (reportUrl cfg reportId) (serviceKey cfg)
                          (JObj [(''result'', result), (''status'', JStr status)]))) 3 500"

subsection \<open>Object storage helpers\<close>

text \<open>
  The pattern \<^verbatim>\<open>/^gs:\/\/([^/]+)\/(.+)$/\<close>: the bucket is what stands before the first
  slash after the scheme, the object name is the rest; neither is empty and the object
  name has no line terminator.
\<close>

definition lineTerminator :: "char \<Rightarrow> bool" where
  "lineTerminator c = (c = CHR 0x0A \<or> c = CHR 0x0D)"

definition parseGsUri :: "string \<Rightarrow> (string \<times> string) option" where
  "parseGsUri u =
     (if prefix ''gs://'' u
      then (let rest = drop 5 u;
                bucketName = takeWhile (\<lambda>c. c \<noteq> CHR ''/'') rest
            in case drop (length bucketName) rest of
                 [] \<Rightarrow> None
               | slash # objectName \<Rightarrow>
                   if bucketName \<noteq> [] \<and> objectName \<noteq> [] \<and> \<not> list_ex lineTerminator objectName
                   then Some (bucketName, objectName) else None)
      else None)"

definition downloadFromGCS :: "config \<Rightarrow> runtime \<Rightarrow> env \<Rightarrow> json \<Rightarrow> string io" where
  "downloadFromGCS cfg rt e gsUri =
     (case gsUri of
        JStr u \<Rightarrow>
          (case parseGsUri u of
             None \<Rightarrow> throwIO (Err ''Error'' (''Invalid gs uri: '' @ u))
           | Some (bucketName, objectName) \<Rightarrow>
               bindIO (effectCall e (Mkdir (tempDir cfg))) (\<lambda>_.
               bindIO (nowCall e) (\<lambda>t.
                 let dest = pathJoin rt (tempDir cfg) (natToString t @ ''-'' @ pathBasename rt objectName)
                 in bindIO (retry (effectCall e (Download bucketName objectName dest)) 3 500) (\<lambda>_.
                    returnIO dest))))
      | _ \<Rightarrow> throwIO (Err ''TypeError'' ''gsUri.match is not a function''))"

definition uploadToGCS :: "config \<Rightarrow> runtime \<Rightarrow> env \<Rightarrow> string \<Rightarrow> string \<Rightarrow> string io" where
  "uploadToGCS cfg rt e localPath destName =
     (let destPath = (if destName \<noteq> [] then destName else ''diagnostics/'' @ pathBasename rt localPath)
      in bindIO (retry (effectCall e (Upload (gcsBucket cfg) localPath destPath)) 3 500) (\<lambda>_.
         returnIO (''gs://'' @ gcsBucket cfg @ ''/'' @ destPath)))"

subsection \<open>Frame extraction\<close>

definition endsWith :: "string \<Rightarrow> string \<Rightarrow> bool" where
  "endsWith s ext = prefix (rev ext) (rev s)"

fun showCode :: "int option \<Rightarrow> string" where
  "showCode None = ''null''"
| "showCode (Some k) = (if k < 0 then ''-'' else '''') @ natToString (nat \<bar>k\<bar>)"

definition extractFrames :: "runtime \<Rightarrow> env \<Rightarrow> string \<Rightarrow> string \<Rightarrow> jsnum \<Rightarrow> string list io" where
  "extractFrames rt e videoPath outDir fps =
     bindIO (effectCall e (Mkdir outDir)) (\<lambda>_ s.
       let args = [''-y'', ''-i'', videoPath, ''-vf'', ''fps='' @ numToString rt fps,
                   pathJoin rt outDir ''frame-%06d.jpg''];
           code = exitCode e (events s) (Ffmpeg args);
           s1 = record_call (Ffmpeg args) s
       in if code \<noteq> Some 0
          then (Inl (Err ''Error'' (''ffmpeg failed with code '' @ showCode code)), s1)
          else (case listing e (events s1) (Readdir outDir) of
                  Inl err \<Rightarrow> (Inl err, record_call (Readdir outDir) s1)
                | Inr files \<Rightarrow>
                    (Inr (map (pathJoin rt outDir)
                            (filter (\<lambda>f. endsWith f ''.jpg'' \<or> endsWith f ''.png'') files)),
                     record_call (Readdir outDir) s1)))"

subsection \<open>Inference wrappers\<close>

definition modelUrl :: "string \<Rightarrow> string" where
  "modelUrl model = ''https://api-inference.huggingface.co/models/'' @ model"

text \<open>
  \<^verbatim>\<open>data[0] && (data[0].generated_text || data[0].text)\<close> for an array \<open>data\<close>: the
  generated text when there is one.
\<close>

definition generatedText :: "json \<Rightarrow> json option" where
  "generatedText data =
     (case data of
        JArr (d0 # rest) \<Rightarrow>
          (if truthy d0
           then (if truthyOpt (getProp d0 ''generated_text'') then getProp d0 ''generated_text''
                 else if truthyOpt (getProp d0 ''text'') then getProp d0 ''text'' else None)
           else None)
      | _ \<Rightarrow> None)"

definition callHFTextModel :: "config \<Rightarrow> runtime \<Rightarrow> env \<Rightarrow> string \<Rightarrow> string \<Rightarrow> json io" where
  "callHFTextModel cfg rt e prompt model =
     bindIO (retry (httpCall e (PostJson (modelUrl model) (hfApiKey cfg)
                (JObj [(''inputs'', JStr prompt),
                       (''options'', JObj [(''wait_for_model'', JBool True)])]))) 3 500)
       (\<lambda>data. returnIO
          (case data of
             JStr s \<Rightarrow> data
           | _ \<Rightarrow> (case generatedText data of Some t \<Rightarrow> t | None \<Rightarrow> JStr (stringify rt data))))"

definition callHFFrameClassifier :: "config \<Rightarrow> env \<Rightarrow> string \<Rightarrow> json io" where
  "callHFFrameClassifier cfg e framePath =
     retry (httpCall e (PostForm (modelUrl (hfFrameClassifierModel cfg)) (hfApiKey cfg)
                          [(''image'', FilePart framePath)])) 3 500"

definition joinWith :: "string \<Rightarrow> string list \<Rightarrow> string" where
  "joinWith sep xs = concat (case xs of [] \<Rightarrow> [] | x # rest \<Rightarrow> x # map (\<lambda>y. sep @ y) rest)"

definition blankLine :: string where
  "blankLine = [CHR 0x0A, CHR 0x0A]"

definition fallbackPrompt :: "string \<Rightarrow> string" where
  "fallbackPrompt promptText = joinWith blankLine
     [''You are an expert forensic analyst. Using the evidence below (labels & confidences), produce JSON: summary, type='deepfake', verdict('likely_fake'|'likely_real'|'inconclusive'), confidence(0-100), evidence[], recommendations[].'',
      '''',
      promptText]"

definition imageParts :: "string list \<Rightarrow> (string \<times> part) list" where
  "imageParts paths =
     map (\<lambda>(i, p). (''image_'' @ natToString i, FilePart p)) (zip [0 ..< length paths] paths)"

text \<open>The body of the \<^verbatim>\<open>try\<close> block of \<^verbatim>\<open>callHFReportModel\<close>: the multimodal call.\<close>

definition multimodalCall :: "config \<Rightarrow> runtime \<Rightarrow> env \<Rightarrow> string \<Rightarrow> string list \<Rightarrow> string \<Rightarrow> json io" where
  "multimodalCall cfg rt e promptText imagePaths model =
     bindIO (retry (httpCall e (PostForm (modelUrl model) (hfApiKey cfg)
                ((''inputs'', TextPart (stringify rt (JObj [(''text'', JStr promptText)])))
                 # imageParts (take 3 imagePaths)))) 3 500)
       (\<lambda>data. returnIO
          (case data of
             JStr s \<Rightarrow> data
           | _ \<Rightarrow> (case generatedText data of Some t \<Rightarrow> t | None \<Rightarrow> data)))"

definition callHFReportModel :: "config \<Rightarrow> runtime \<Rightarrow> env \<Rightarrow> string \<Rightarrow> string list \<Rightarrow> string \<Rightarrow> json io" where
  "callHFReportModel cfg rt e promptText imagePaths model =
     catchIO (multimodalCall cfg rt e promptText imagePaths model)
       (\<lambda>err. callHFTextModel cfg rt e (fallbackPrompt promptText) (hfAuditModel cfg))"

subsection \<open>\<^verbatim>\<open>JSON.stringify(value, null, 2)\<close>\<close>

fun pretty :: "runtime \<Rightarrow> string \<Rightarrow> json \<Rightarrow> string"
  and prettyElems :: "runtime \<Rightarrow> string \<Rightarrow> json list \<Rightarrow> string"
  and prettyProps :: "runtime \<Rightarrow> string \<Rightarrow> (string \<times> json) list \<Rightarrow> string" where
  "pretty rt ind JNull = ''null''"
| "pretty rt ind (JBool b) = (if b then ''true'' else ''false'')"
| "pretty rt ind (JNum n) = stringifyNum rt n"
| "pretty rt ind (JStr s) = quoteString s"
| "pretty rt ind (JArr xs) =
     (if xs = [] then ''[]''
      else ''['' @ [CHR 0x0A] @ ind @ ''  '' @ prettyElems rt (ind @ ''  '') xs @ [CHR 0x0A] @ ind @ '']'')"
| "pretty rt ind (JObj kvs) =
     (if kvs = [] then ''{}''
      else ''{'' @ [CHR 0x0A] @ ind @ ''  '' @ prettyProps rt (ind @ ''  '') kvs @ [CHR 0x0A] @ ind @ ''}'')"
| "prettyElems rt ind [] = ''''"
| "prettyElems rt ind (x # xs) =
     pretty rt ind x @ (if xs = [] then '''' else '','' @ [CHR 0x0A] @ ind @ prettyElems rt ind xs)"
| "prettyProps rt ind [] = ''''"
| "prettyProps rt ind ((k, v) # kvs) =
     quoteString k @ '': '' @ pretty rt ind v @
     (if kvs = [] then '''' else '','' @ [CHR 0x0A] @ ind @ prettyProps rt ind kvs)"

section \<open>The analysis pipelines\<close>

definition bindE :: "thrown + 'a \<Rightarrow> ('a \<Rightarrow> thrown + 'b) \<Rightarrow> thrown + 'b" where
  "bindE r f = (case r of Inl e \<Rightarrow> Inl e | Inr x \<Rightarrow> f x)"

text \<open>A value inside a template literal or a string concatenation.\<close>

definition template :: "runtime \<Rightarrow> json option \<Rightarrow> thrown + string" where
  "template rt v = (case v of None \<Rightarrow> Inr ''undefined'' | Some x \<Rightarrow> toStr rt x)"

text \<open>\<^verbatim>\<open>a || b\<close> for a property \<open>a\<close> that may be missing.\<close>

definition orElse :: "json option \<Rightarrow> json \<Rightarrow> json" where
  "orElse a b = (case a of Some x \<Rightarrow> if truthy x then x else b | None \<Rightarrow> b)"

text \<open>\<^verbatim>\<open>(err && err.message) || fallback\<close>\<close>

fun messageOr :: "thrown \<Rightarrow> string \<Rightarrow> string" where
  "messageOr Undefined fallback = fallback"
| "messageOr (Err name msg) fallback = (if msg \<noteq> [] then msg else fallback)"

text \<open>\<^verbatim>\<open>String(err)\<close>: \<^verbatim>\<open>Error.prototype.toString\<close>.\<close>

fun errorString :: "thrown \<Rightarrow> string" where
  "errorString Undefined = ''undefined''"
| "errorString (Err name msg) =
     (if name = [] then msg else if msg = [] then name else name @ '': '' @ msg)"

subsection \<open>The audit pipeline\<close>

definition auditPrompt :: "runtime \<Rightarrow> json \<Rightarrow> string" where
  "auditPrompt rt report =
     (let metadata = orElse (getProp report ''metadata'') (JObj [])
      in joinWith blankLine
           [''You are an ethics auditor. Given the model metadata below produce JSON with fields: summary,type='audit',scores{transparency,fairness,privacy,robustness},metrics,flagged_issues[],recommendations[]. Output JSON only.'',
            ''MODEL METADATA:'',
            pretty rt [] metadata])"

definition defaultAudit :: "string \<Rightarrow> json" where
  "defaultAudit summary =
     JObj [(''summary'', JStr summary),
           (''type'', JStr ''audit''),
           (''scores'', JObj [(''transparency'', JNum (Fin 60)), (''fairness'', JNum (Fin 50)),
                              (''privacy'', JNum (Fin 60)), (''robustness'', JNum (Fin 55))]),
           (''metrics'', JObj []),
           (''flagged_issues'', JArr []),
           (''recommendations'', JArr [])]"

text \<open>\<^verbatim>\<open>raw.toString()\<close> in the \<^verbatim>\<open>catch\<close> block.\<close>

fun rawToString :: "runtime \<Rightarrow> json \<Rightarrow> thrown + string" where
  "rawToString rt (JObj kvs) =
     (if hasOwn kvs ''toString''
      then Inl (Err ''TypeError'' ''raw.toString is not a function'')
      else Inr ''[object Object]'')"
| "rawToString rt JNull =
     Inl (Err ''TypeError'' ''Cannot read properties of null (reading 'toString')'')"
| "rawToString rt v = toStr rt v"

text \<open>
  \<^verbatim>\<open>try { parsed = JSON.parse(raw); } catch (err) { parsed = {...} }\<close>. \<^verbatim>\<open>JSON.parse\<close>
  converts its argument to a string first; whatever is raised inside the \<^verbatim>\<open>try\<close> leads
  to the default result.
\<close>

definition parseAudit :: "runtime \<Rightarrow> json \<Rightarrow> thrown + json" where
  "parseAudit rt raw =
     (case (case toStr rt raw of Inl err \<Rightarrow> None | Inr text \<Rightarrow> jsonParse rt text) of
        Some parsed \<Rightarrow> Inr parsed
      | None \<Rightarrow> bindE (rawToString rt raw) (\<lambda>text. Inr (defaultAudit (take 1000 text))))"

definition setKey :: "(string \<times> json) list \<Rightarrow> string \<Rightarrow> json \<Rightarrow> (string \<times> json) list" where
  "setKey kvs k v =
     (if hasOwn kvs k then map (\<lambda>(k', v'). if k' = k then (k', v) else (k', v')) kvs
      else kvs @ [(k, v)])"

text \<open>
  \<^verbatim>\<open>parsed.artifacts = parsed.artifacts || {}; parsed.artifacts.raw_output = art\<close>, in
  sloppy mode, on whatever \<^verbatim>\<open>JSON.parse\<close> returned. The result is given as it serialises:
  a named property set on an array does not show, and one set on a string, number or
  boolean is dropped.
\<close>

definition attachRawOutput :: "json \<Rightarrow> string \<Rightarrow> thrown + json" where
  "attachRawOutput parsed art =
     (case parsed of
        JNull \<Rightarrow> Inl (Err ''TypeError'' ''Cannot read properties of null (reading 'artifacts')'')
      | JObj kvs \<Rightarrow>
          (let artifacts = orElse (map_of kvs ''artifacts'') (JObj []);
               artifacts' = (case artifacts of
                               JObj akvs \<Rightarrow> JObj (setKey akvs ''raw_output'' (JStr art))
                             | _ \<Rightarrow> artifacts)
           in Inr (JObj (setKey kvs ''artifacts'' artifacts')))
      | JArr xs \<Rightarrow> Inr parsed
      | _ \<Rightarrow> Inl (Err ''TypeError'' ''Cannot set properties of undefined (setting 'raw_output')''))"

definition analyzeAudit :: "config \<Rightarrow> runtime \<Rightarrow> env \<Rightarrow> json \<Rightarrow> string \<Rightarrow> json io" where
  "analyzeAudit cfg rt e report runId =
     bindIO (callHFTextModel cfg rt e (auditPrompt rt report) (hfAuditModel cfg)) (\<lambda>raw.
     bindIO (liftIO (parseAudit rt raw)) (\<lambda>parsed.
       let rawLocal = pathJoin rt (tempDir cfg) (''audit-raw-'' @ runId @ ''.txt'')
       in bindIO (effectCall e (Mkdir (tempDir cfg))) (\<lambda>_.
          bindIO (effectCall e (WriteFile rawLocal raw)) (\<lambda>_.
          bindIO (pushCleanup rawLocal) (\<lambda>_.
          bindIO (uploadToGCS cfg rt e rawLocal (''diagnostics/audit-raw-'' @ runId @ ''.txt'')) (\<lambda>art.
          liftIO (attachRawOutput parsed art)))))))"

subsection \<open>The deepfake pipeline\<close>

text \<open>\<^verbatim>\<open>xs.slice(0, end)\<close> for a number \<open>end\<close>.\<close>

fun sliceTo :: "jsnum \<Rightarrow> 'a list \<Rightarrow> 'a list" where
  "sliceTo (Fin q) xs =
     (let k = (if 0 \<le> q then \<lfloor>q\<rfloor> else \<lceil>q\<rceil>)
      in if k < 0 then take (nat (max (int (length xs) + k) 0)) xs else take (nat k) xs)"
| "sliceTo PInf xs = xs"
| "sliceTo NInf xs = []"
| "sliceTo NaN xs = []"

text \<open>The loop over the sampled frames: a failed classification leaves an error marker.\<close>

fun classifyFrames :: "config \<Rightarrow> runtime \<Rightarrow> env \<Rightarrow> string list \<Rightarrow> json list \<Rightarrow> json list io" where
  "classifyFrames cfg rt e [] frameResults s = (Inr frameResults, s)"
| "classifyFrames cfg rt e (f # fs) frameResults s =
     (case callHFFrameClassifier cfg e f s of
        (Inr clfRaw, s') \<Rightarrow>
          classifyFrames cfg rt e fs
            (frameResults @ [JObj [(''frame'', JStr (pathBasename rt f)), (''classifier'', clfRaw)]]) s'
      | (Inl err, s') \<Rightarrow>
          classifyFrames cfg rt e fs
            (frameResults @ [JObj [(''frame'', JStr (pathBasename rt f)),
                                   (''error'', JStr (messageOr err ''classifier error''))]]) s')"

fun verdictString :: "verdict \<Rightarrow> string" where
  "verdictString LikelyFake = ''likely_fake''"
| "verdictString LikelyReal = ''likely_real''"
| "verdictString Inconclusive = ''inconclusive''"

definition aggregateJson :: "aggregate \<Rightarrow> json" where
  "aggregateJson agg =
     JObj [(''verdict'', JStr (verdictString (verdict agg))),
           (''confidence'', JNum (confidence agg)),
           (''ratio'', JNum (Fin (ratio agg))),
           (''fakeVotes'', JNum (Fin (of_nat (fakeVotes agg)))),
           (''total'', JNum (Fin (of_nat (total agg)))),
           (''avgConf'', (case avgConf agg of None \<Rightarrow> JNull | Some a \<Rightarrow> JNum a))]"

text \<open>\<^verbatim>\<open>best && best.score ? `score=${Math.round(best.score*100)}` : ""\<close> for a truthy \<open>best\<close>.\<close>

definition scoreText :: "runtime \<Rightarrow> json \<Rightarrow> thrown + string" where
  "scoreText rt best =
     (case getProp best ''score'' of
        Some sc \<Rightarrow>
          if truthy sc
          then bindE (toNumber rt sc) (\<lambda>n. Inr (''score='' @ numToString rt (mathRound (times100 n))))
          else Inr ''''
      | None \<Rightarrow> Inr '''')"

definition frameSummary :: "runtime \<Rightarrow> json \<Rightarrow> thrown + string" where
  "frameSummary rt fr =
     bindE (template rt (getProp fr ''frame'')) (\<lambda>frame.
       if truthyOpt (getProp fr ''error'')
       then bindE (template rt (getProp fr ''error'')) (\<lambda>err. Inr (frame @ '': ERROR('' @ err @ '')''))
       else (case getProp fr ''classifier'' of
               Some (JArr xs) \<Rightarrow>
                 (case xs of
                    best # rest \<Rightarrow>
                      if truthy best
                      then bindE (case getProp best ''label'' of
                                    Some l \<Rightarrow> if truthy l then toStr rt l else Inr (stringify rt best)
                                  | None \<Rightarrow> Inr (stringify rt best)) (\<lambda>label.
                           bindE (scoreText rt best) (\<lambda>score.
                           Inr (frame @ '': '' @ label @ '' '' @ score)))
                      else Inr (frame @ '': '' @ stringify rt (JArr xs) @ '' '')
                  | [] \<Rightarrow> Inr (frame @ '': '' @ stringify rt (JArr xs) @ '' ''))
             | _ \<Rightarrow> Inr (frame @ '': '' @ take 200 (stringify rt fr))))"

fun mapE :: "('a \<Rightarrow> thrown + 'b) \<Rightarrow> 'a list \<Rightarrow> thrown + 'b list" where
  "mapE f [] = Inr []"
| "mapE f (x # xs) = bindE (f x) (\<lambda>y. bindE (mapE f xs) (\<lambda>ys. Inr (y # ys)))"

definition reportPrompt :: "runtime \<Rightarrow> aggregate \<Rightarrow> string list \<Rightarrow> string" where
  "reportPrompt rt agg sampleSummaries = joinWith blankLine
     [''You are an expert forensic analyst. Using the evidence below (frame classifier labels and confidences), produce JSON with fields: summary, type='deepfake', verdict(one of 'likely_fake','likely_real','inconclusive'), confidence(0-100), evidence[], recommendations[].'',
      '''',
      ''AGGREGATED STATS:'',
      pretty rt [] (aggregateJson agg),
      '''',
      ''SAMPLE FRAME RESULTS (frame: label [score]):'',
      joinWith [CHR 0x0A] sampleSummaries,
      '''',
      ''Make evidence[] an array of short strings citing frame filenames and reasons. Keep JSON valid. If unsure, set verdict to 'inconclusive'.'']"

text \<open>
  The parsing of the report model's answer: an object (or array, or \<^verbatim>\<open>null\<close>) is taken as
  it is; a string is parsed, and so is the serialisation of a number or boolean; a text
  that is not JSON gives a result made from the aggregate.
\<close>

definition parseReport :: "runtime \<Rightarrow> aggregate \<Rightarrow> string list \<Rightarrow> json \<Rightarrow> json" where
  "parseReport rt agg sampleSummaries rawReport =
     (case rawReport of
        JNull \<Rightarrow> rawReport
      | JArr xs \<Rightarrow> rawReport
      | JObj kvs \<Rightarrow> rawReport
      | _ \<Rightarrow>
          (let text = (case rawReport of JStr s \<Rightarrow> s | _ \<Rightarrow> stringify rt rawReport)
           in case jsonParse rt text of
                Some parsed \<Rightarrow> parsed
              | None \<Rightarrow>
                  JObj [(''summary'', JStr (take 1000 text)),
                        (''type'', JStr ''deepfake''),
                        (''verdict'', JStr (verdictString (verdict agg))),
                        (''confidence'', JNum (confidence agg)),
                        (''evidence'', JArr (map JStr (take 6 sampleSummaries))),
                        (''recommendations'', JArr [])]))"

text \<open>\<^verbatim>\<open>v[0]\<close> on a truthy value.\<close>

fun index0 :: "json \<Rightarrow> json option" where
  "index0 (JArr xs) = (case xs of [] \<Rightarrow> None | x # rest \<Rightarrow> Some x)"
| "index0 (JStr s) = (case s of [] \<Rightarrow> None | c # rest \<Rightarrow> Some (JStr [c]))"
| "index0 (JObj kvs) = map_of kvs ''0''"
| "index0 v = None"

definition frameAnnotation :: "runtime \<Rightarrow> json \<Rightarrow> thrown + json" where
  "frameAnnotation rt fr =
     bindE (if truthyOpt (getProp fr ''error'')
            then bindE (template rt (getProp fr ''error'')) (\<lambda>err. Inr (''error: '' @ err))
            else (case (case getProp fr ''classifier'' of
                          Some c \<Rightarrow> if truthy c then index0 c else None
                        | None \<Rightarrow> None) of
                    Some first \<Rightarrow>
                      if truthy first
                      then bindE (template rt (getProp first ''label'')) (\<lambda>label.
                           bindE (case getProp first ''score'' of
                                    Some sc \<Rightarrow> if truthy sc then toNumber rt sc else Inr (Fin 0)
                                  | None \<Rightarrow> Inr (Fin 0)) (\<lambda>n.
                           Inr (label @ '' ('' @ numToString rt (mathRound (times100 n)) @ ''%)'')))
                      else Inr (take 200 (stringify rt fr))
                  | None \<Rightarrow> Inr (take 200 (stringify rt fr))))
       (\<lambda>reason.
          Inr (JObj ((case getProp fr ''frame'' of Some f \<Rightarrow> [(''frame'', f)] | None \<Rightarrow> [])
                     @ [(''reason'', JStr reason), (''heatmap'', JNull)])))"

definition deepfakeResult ::
  "config \<Rightarrow> runtime \<Rightarrow> aggregate \<Rightarrow> json list \<Rightarrow> nat \<Rightarrow> json \<Rightarrow> string \<Rightarrow> thrown + json" where
  "deepfakeResult cfg rt agg frameResults sampled parsedReport artifactUri =
     (if parsedReport = JNull
      then Inl (Err ''TypeError'' ''Cannot read properties of null (reading 'summary')'')
      else bindE (mapE (frameAnnotation rt) (take 3 frameResults)) (\<lambda>annotations.
        Inr (JObj
          [(''summary'', orElse (getProp parsedReport ''summary'')
               (JStr (''Deepfake analysis: '' @ verdictString (verdict agg) @ '' (conf '' @
                      numToString rt (confidence agg) @ '')''))),
           (''type'', JStr ''deepfake''),
           (''verdict'', orElse (getProp parsedReport ''verdict'') (JStr (verdictString (verdict agg)))),
           (''confidence'', orElse (getProp parsedReport ''confidence'') (JNum (confidence agg))),
           (''traces'', JObj [(''temporal_inconsistency'', JNum (Fin (ratio agg))),
                              (''facial_artifact_score'', JNum (Fin (ratio agg))),
                              (''metadata_mismatch_score'', JNum (Fin 0))]),
           (''frame_annotations'', JArr annotations),
           (''notes'', JStr (''sampled='' @ natToString sampled @ '', frameClassifier='' @
                             hfFrameClassifierModel cfg @ '', reportModel='' @ hfReportModel cfg)),
           (''artifacts'', JObj [(''diagnostic'', JStr artifactUri)]),
           (''raw'', JObj [(''parsedReport'', parsedReport)])])))"

text \<open>What \<^verbatim>\<open>analyzeDeepfake\<close> does once it has a non-empty list of frames.\<close>

definition classifyAndReport :: "config \<Rightarrow> runtime \<Rightarrow> env \<Rightarrow> string \<Rightarrow> string list \<Rightarrow> json io" where
  "classifyAndReport cfg rt e runId frames =
     (let sample = sliceTo (maxFrames cfg) frames
      in bindIO (classifyFrames cfg rt e sample []) (\<lambda>frameResults.
         bindIO (liftIO (aggregateFrameResults rt frameResults)) (\<lambda>agg.
         bindIO (liftIO (mapE (frameSummary rt) frameResults)) (\<lambda>sampleSummaries.
           let reportPromptText = reportPrompt rt agg sampleSummaries
           in bindIO (catchIO (callHFReportModel cfg rt e reportPromptText (take 3 sample) (hfReportModel cfg))
                        (\<lambda>err. callHFTextModel cfg rt e reportPromptText (hfAuditModel cfg))) (\<lambda>rawReport.
              let parsedReport = parseReport rt agg sampleSummaries rawReport;
                  diagLocal = pathJoin rt (tempDir cfg) (''diag-deepfake-'' @ runId @ ''.json'');
                  diag = JObj [(''sampledFrames'', JArr (map (\<lambda>p. JStr (pathBasename rt p)) sample)),
                               (''frameResults'', JArr frameResults),
                               (''aggregator'', aggregateJson agg),
                               (''parsedReport'', parsedReport)]
              in bindIO (effectCall e (WriteFile diagLocal (JStr (pretty rt [] diag)))) (\<lambda>_.
                 bindIO (pushCleanup diagLocal) (\<lambda>_.
                 bindIO (uploadToGCS cfg rt e diagLocal (''diagnostics/deepfake-'' @ runId @ ''.json'')) (\<lambda>artifactUri.
                 liftIO (deepfakeResult cfg rt agg frameResults (length sample) parsedReport artifactUri)))))))))"

definition analyzeDeepfake :: "config \<Rightarrow> runtime \<Rightarrow> env \<Rightarrow> json \<Rightarrow> string \<Rightarrow> json io" where
  "analyzeDeepfake cfg rt e report runId =
     (case getProp report ''fileUrl'' of
        None \<Rightarrow> throwIO (Err ''Error'' ''report.fileUrl missing'')
      | Some fileUrl \<Rightarrow>
          if \<not> truthy fileUrl then throwIO (Err ''Error'' ''report.fileUrl missing'')
          else bindIO (downloadFromGCS cfg rt e fileUrl) (\<lambda>localVideo.
               bindIO (pushCleanup localVideo) (\<lambda>_.
                 let framesDir = pathJoin rt (tempDir cfg) (''frames-'' @ runId)
                 in bindIO (extractFrames rt e localVideo framesDir (framesPerSecond cfg)) (\<lambda>frames.
                    bindIO (pushCleanup framesDir) (\<lambda>_.
                      if frames = [] then throwIO (Err ''Error'' ''No frames extracted'')
                      else classifyAndReport cfg rt e runId frames)))))"

section \<open>The run controller\<close>

text \<open>The result patched on failure; \<^verbatim>\<open>notes\<close> is \<^verbatim>\<open>(err && err.message) || String(err)\<close>.\<close>

definition failureResult :: "thrown \<Rightarrow> json" where
  "failureResult err =
     JObj [(''summary'', JStr ''worker failed''), (''notes'', JStr (messageOr err (errorString err)))]"

definition dispatch :: "config \<Rightarrow> runtime \<Rightarrow> env \<Rightarrow> json \<Rightarrow> string \<Rightarrow> json io" where
  "dispatch cfg rt e report runId =
     (if getProp report ''type'' = Some (JStr ''deepfake'') then analyzeDeepfake cfg rt e report runId
      else if getProp report ''type'' = Some (JStr ''audit'') then analyzeAudit cfg rt e report runId
      else bindIO (liftIO (template rt (getProp report ''type''))) (\<lambda>t.
           throwIO (Err ''Error'' (''Unknown report type: '' @ t))))"

text \<open>
  The \<^verbatim>\<open>try\<close> block with its \<^verbatim>\<open>catch\<close>: the failure patch is itself guarded, so the block
  never raises.
\<close>

definition process :: "config \<Rightarrow> runtime \<Rightarrow> env \<Rightarrow> string \<Rightarrow> json \<Rightarrow> string \<Rightarrow> unit io" where
  "process cfg rt e reportId report runId =
     catchIO
       (bindIO (dispatch cfg rt e report runId) (\<lambda>result.
        bindIO (patchReport cfg e reportId result ''completed'') (\<lambda>_. returnIO ())))
       (\<lambda>err. catchIO
          (bindIO (patchReport cfg e reportId (failureResult err) ''failed'') (\<lambda>_. returnIO ()))
          (\<lambda>err'. returnIO ()))"

text \<open>The \<^verbatim>\<open>finally\<close> block: every registered path is removed, failures are swallowed.\<close>

definition cleanup :: "state \<Rightarrow> state" where
  "cleanup s = s\<lparr>events := events s @ map (\<lambda>p. Called (Rm p)) (toCleanup s)\<rparr>"

definition run :: "config \<Rightarrow> runtime \<Rightarrow> env \<Rightarrow> string \<Rightarrow> unit io" where
  "run cfg rt e reportId =
     bindIO (getReport cfg e reportId) (\<lambda>report.
       if \<not> truthy report then throwIO (Err ''Error'' (''Report not found: '' @ reportId))
       else if getProp report ''status'' = Some (JStr ''completed'') then returnIO ()
       else bindIO (nowCall e) (\<lambda>t s.
              let runId = reportId @ ''-'' @ natToString t
              in case process cfg rt e reportId report runId (s\<lparr>toCleanup := []\<rparr>) of
                   (r, s') \<Rightarrow> (r, cleanup s')))"

section \<open>Notions used in the statements\<close>

text \<open>A confidence sample that is a finite number between 0 and 100.\<close>

fun percent :: "jsnum \<Rightarrow> bool" where
  "percent (Fin q) = (0 \<le> q \<and> q \<le> 100)"
| "percent n = False"

text \<open>No object inside the value has an own property named \<^verbatim>\<open>toString\<close>.\<close>

fun noOwnToString :: "json \<Rightarrow> bool"
  and noOwnToStringElems :: "json list \<Rightarrow> bool"
  and noOwnToStringProps :: "(string \<times> json) list \<Rightarrow> bool" where
  "noOwnToString (JArr xs) = noOwnToStringElems xs"
| "noOwnToString (JObj kvs) = noOwnToStringProps kvs"
| "noOwnToString v = True"
| "noOwnToStringElems [] = True"
| "noOwnToStringElems (x # xs) = (noOwnToString x \<and> noOwnToStringElems xs)"
| "noOwnToStringProps [] = True"
| "noOwnToStringProps ((k, v) # kvs) = (k \<noteq> ''toString'' \<and> noOwnToString v \<and> noOwnToStringProps kvs)"

text \<open>
  The state before the \<open>i\<close>-th invocation (counted from 0) of an operation under
  \<^verbatim>\<open>retry\<close> when every earlier invocation failed, and the outcome of that invocation.
\<close>

primrec stateBefore :: "'a io \<Rightarrow> nat \<Rightarrow> state \<Rightarrow> nat \<Rightarrow> state" where
  "stateBefore fn baseDelay s 0 = s"
| "stateBefore fn baseDelay s (Suc i) =
     (let s' = snd (fn (stateBefore fn baseDelay s i))
      in s'\<lparr>events := events s' @ [Slept (baseDelay * 2 ^ i)]\<rparr>)"

definition outcome :: "'a io \<Rightarrow> nat \<Rightarrow> state \<Rightarrow> nat \<Rightarrow> thrown + 'a" where
  "outcome fn baseDelay s i = fst (fn (stateBefore fn baseDelay s i))"

text \<open>
  Observations on the event log: an event that is a given call or a sleep; a write to the
  Report Store; a call that only a pipeline makes.
\<close>

fun callOrSleep :: "call \<Rightarrow> event \<Rightarrow> bool" where
  "callOrSleep c (Called c') = (c' = c)"
| "callOrSleep c (Slept d) = True"

fun isPatch :: "event \<Rightarrow> bool" where
  "isPatch (Called (Patch url key body)) = True"
| "isPatch ev = False"

fun isPipelineCall :: "event \<Rightarrow> bool" where
  "isPipelineCall (Called (Get url key)) = False"
| "isPipelineCall (Called (Patch url key body)) = False"
| "isPipelineCall (Called Now) = False"
| "isPipelineCall (Called (Rm p)) = False"
| "isPipelineCall (Called c) = True"
| "isPipelineCall (Slept d) = False"

section \<open>Scenarios\<close>

text \<open>
  Concrete inputs on which the definitions are evaluated. First a runtime for scenarios in
  which no fractional number is rendered, no string is read as a number, the only text
  given to \<^verbatim>\<open>JSON.parse\<close> is not JSON, and paths are plain relative paths.
\<close>

definition plainRuntime :: runtime where
  "plainRuntime =
     \<lparr>fracToString = (\<lambda>q. ''''), strToNum = (\<lambda>s. NaN), jsonParse = (\<lambda>s. None),
      pathJoin = (\<lambda>a b. a @ ''/'' @ b),
      pathBasename = (\<lambda>p. rev (takeWhile (\<lambda>c. c \<noteq> CHR ''/'') (rev p)))\<rparr>"

text \<open>
  The entry that the deepfake pipeline pushes for a classified frame,
  \<^verbatim>\<open>{ frame: ..., classifier: [{ label, score }] }\<close>.
\<close>

definition classified :: "string \<Rightarrow> string \<Rightarrow> rat \<Rightarrow> json" where
  "classified frame label score =
     JObj [(''frame'', JStr frame),
           (''classifier'', JArr [JObj [(''label'', JStr label), (''score'', JNum (Fin score))]])]"

definition specScenario :: "json list" where
  "specScenario =
     [classified ''frame-000001.jpg'' ''fake'' (9 / 10),
      classified ''frame-000002.jpg'' ''fake'' (9 / 10),
      classified ''frame-000003.jpg'' ''real'' (8 / 10)]"

text \<open>
  Environments for scenarios: the file system, storage and \<^verbatim>\<open>ffmpeg\<close> succeed, the
  directory listing is empty and the clock stands at 0; HTTP answers as given. An HTTP
  service that fails its first \<open>k\<close> calls, each with an error of its own.
\<close>

definition calls :: "event list \<Rightarrow> nat" where
  "calls evs = length (filter (\<lambda>ev. case ev of Called c \<Rightarrow> True | Slept d \<Rightarrow> False) evs)"

definition quietEnv :: "(event list \<Rightarrow> call \<Rightarrow> thrown + json) \<Rightarrow> env" where
  "quietEnv h = \<lparr>http = h, effect = (\<lambda>evs c. None), exitCode = (\<lambda>evs c. Some 0),
                 listing = (\<lambda>evs c. Inr []), clock = (\<lambda>evs c. 0)\<rparr>"

definition failingFirst :: "nat \<Rightarrow> json \<Rightarrow> event list \<Rightarrow> call \<Rightarrow> thrown + json" where
  "failingFirst k v evs c =
     (if calls evs < k then Inl (Err ''Error'' (''failure '' @ natToString (calls evs + 1))) else Inr v)"

definition start :: state where
  "start = \<lparr>events = [], toCleanup = []\<rparr>"

definition getDemo :: call where
  "getDemo = Get ''https://api.example/reports/r1'' ''service-key''"

definition formsDown :: "event list \<Rightarrow> call \<Rightarrow> thrown + json" where
  "formsDown evs c =
     (case c of
        PostForm url key parts \<Rightarrow> Inl (Err ''AxiosError'' ''Request failed with status code 503'')
      | _ \<Rightarrow> Inr (JArr [JObj [(''generated_text'', JStr ''{}'')]]))"

definition demoConfig :: config where
  "demoConfig =
     \<lparr>apiBase = ''https://api.example'', serviceKey = ''service-key'', gcsBucket = ''bucket'',
      tempDir = ''./tmp'', hfApiKey = ''hf-key'', hfAuditModel = ''LLAVA-1.6-Mistral-7B'',
      hfFrameClassifierModel = ''prithivMLmods/deepfake-detector-model-v1'',
      hfReportModel = ''Salesforce/blip2-opt-2.7b'', framesPerSecond = Fin 1, maxFrames = Fin 8\<rparr>"

text \<open>
  A Report Store holding one report, after the \<^verbatim>\<open>PATCH\<close> route of the backend
  (\<^verbatim>\<open>routes/reports.ts\<close>): a truthy \<^verbatim>\<open>result\<close> replaces the result, and a status among
  \<^verbatim>\<open>pending\<close>, \<^verbatim>\<open>completed\<close>, \<^verbatim>\<open>failed\<close> replaces the status. The text model answers
  \<^verbatim>\<open>not json\<close>; every form upload is answered by a classification as "fake".
\<close>

definition applyPatch :: "json \<Rightarrow> json \<Rightarrow> json" where
  "applyPatch report body =
     (case report of
        JObj kvs \<Rightarrow>
          (let kvs1 = (case getProp body ''result'' of
                         Some r \<Rightarrow> if truthy r then setKey kvs ''result'' r else kvs
                       | None \<Rightarrow> kvs)
           in case getProp body ''status'' of
                Some st \<Rightarrow>
                  if truthy st \<and> st \<in> set [JStr ''pending'', JStr ''completed'', JStr ''failed'']
                  then JObj (setKey kvs1 ''status'' st) else JObj kvs1
              | None \<Rightarrow> JObj kvs1)
      | _ \<Rightarrow> report)"

fun storedReport :: "json \<Rightarrow> event list \<Rightarrow> json" where
  "storedReport report [] = report"
| "storedReport report (ev # evs) =
     storedReport (case ev of Called (Patch url key body) \<Rightarrow> applyPatch report body | _ \<Rightarrow> report) evs"

definition liveStore :: "json \<Rightarrow> event list \<Rightarrow> call \<Rightarrow> thrown + json" where
  "liveStore initial evs c =
     (case c of
        Get url key \<Rightarrow> Inr (storedReport initial evs)
      | Patch url key body \<Rightarrow> Inr (applyPatch (storedReport initial evs) body)
      | PostJson url key payload \<Rightarrow> Inr (JStr ''not json'')
      | _ \<Rightarrow> Inr (JArr [JObj [(''label'', JStr ''fake''), (''score'', JNum (Fin (9 / 10)))]]))"

fun statusOf :: "thrown + json \<Rightarrow> json option" where
  "statusOf (Inl err) = None"
| "statusOf (Inr report) = getProp report ''status''"

definition auditReport :: "string \<Rightarrow> json" where
  "auditReport status =
     JObj [(''type'', JStr ''audit''), (''status'', JStr status),
           (''metadata'', JObj [(''license'', JStr ''MIT'')])]"

definition deepfakeReport :: "string \<Rightarrow> json" where
  "deepfakeReport status =
     JObj [(''type'', JStr ''deepfake''), (''status'', JStr status),
           (''fileUrl'', JStr ''gs://bucket/video.mp4'')]"

definition auditEnv :: env where
  "auditEnv = quietEnv (liveStore (auditReport ''pending''))"

definition failedEnv :: env where
  "failedEnv = quietEnv (liveStore (auditReport ''failed''))"

definition zeroEnv :: env where
  "zeroEnv = quietEnv (liveStore (deepfakeReport ''pending''))"

definition afterFirstRun :: state where
  "afterFirstRun = snd (run demoConfig plainRuntime auditEnv ''r1'' start)"



section \<open>Properties of the aggregator\<close>

lemma structuredStep_votes:
  "structuredStep rt best lab st = Inr st' \<Longrightarrow> fst st \<le> fst st' \<and> fst st' \<le> Suc (fst st)"
  by (auto simp: structuredStep_def Let_def split: sum.splits option.splits if_splits)

lemma frameStep_votes:
  "frameStep rt fr st = Inr st' \<Longrightarrow> fst st \<le> fst st' \<and> fst st' \<le> Suc (fst st)"
  by (auto simp: frameStep_def textStep_def fallbackStep_def Let_def
      dest: structuredStep_votes split: option.splits json.splits if_splits)

lemma frameLoop_votes:
  "frameLoop rt frs st = Inr st' \<Longrightarrow> fst st' \<le> fst st + length frs"
proof (induction frs arbitrary: st)
  case Nil
  then show ?case by simp
next
  case (Cons fr frs)
  then obtain st1 where s1: "frameStep rt fr st = Inr st1" and l1: "frameLoop rt frs st1 = Inr st'"
    by (auto split: sum.splits)
  from Cons.IH [OF l1] frameStep_votes [OF s1] show ?case by simp
qed

lemma round_40: "roundHalfUp 40 = 40"
  by (simp add: roundHalfUp_def) linarith

lemma finish_ratio: "ratio (finish len st) = of_nat (fst st) / of_nat (if len = 0 then 1 else len)"
  by (simp add: finish_def Let_def)

lemma finish_votes: "fakeVotes (finish len st) = fst st"
  by (simp add: finish_def Let_def)

lemma finish_verdict:
  "verdict (finish len st) =
     (if ratio (finish len st) > 2 / 5 then LikelyFake
      else if ratio (finish len st) < 1 / 10 then LikelyReal else Inconclusive)"
  by (simp add: finish_def Let_def)

lemma props_hasOwn: "noOwnToStringProps kvs \<Longrightarrow> \<not> hasOwn kvs ''toString''"
  by (induction kvs) (auto simp: hasOwn_def)

lemma props_lookup: "noOwnToStringProps kvs \<Longrightarrow> map_of kvs k = Some v \<Longrightarrow> noOwnToString v"
  by (induction kvs) (auto split: if_splits)

lemma getProp_noOwnToString: "noOwnToString v \<Longrightarrow> getProp v k = Some w \<Longrightarrow> noOwnToString w"
  by (cases v) (auto dest: props_lookup)

lemma toStr_returns:
  "noOwnToString v \<Longrightarrow> \<exists>s. toStr rt v = Inr s"
  "noOwnToStringElems vs \<Longrightarrow> \<exists>s. joinStr rt vs = Inr s"
  by (induction rt v and rt vs rule: toStr_joinStr.induct) (auto simp: props_hasOwn)

lemma labelToString_returns: "noOwnToString v \<Longrightarrow> \<exists>s. labelToString rt v = Inr s"
  by (cases v) (auto simp: props_hasOwn toStr_returns)

lemma toNumber_returns: "noOwnToString v \<Longrightarrow> \<exists>n. toNumber rt v = Inr n"
proof (cases v)
  case (JArr xs)
  assume "noOwnToString v"
  with JArr obtain s where "joinStr rt xs = Inr s"
    using toStr_returns(2) [of xs rt] by auto
  with JArr show ?thesis by simp
qed (auto simp: props_hasOwn)

lemma structuredBest_noOwnToString:
  assumes "noOwnToString fr" and "structuredBest fr = Some (best, lab)"
  shows "noOwnToString best \<and> noOwnToString lab"
proof -
  from assms(2) obtain rest where c: "getProp fr ''classifier'' = Some (JArr (best # rest))"
    and l: "getProp best ''label'' = Some lab"
    by (auto simp: structuredBest_def split: option.splits json.splits list.splits if_splits)
  from getProp_noOwnToString [OF assms(1) c] have "noOwnToString best" by simp
  with getProp_noOwnToString [OF _ l] show ?thesis by simp
qed

lemma structuredStep_returns:
  assumes "noOwnToString best" and "noOwnToString lab"
  shows "\<exists>st'. structuredStep rt best lab st = Inr st'"
proof -
  obtain s where s: "labelToString rt lab = Inr s"
    using labelToString_returns [OF assms(2)] by blast
  show ?thesis
  proof (cases "getProp best ''score''")
    case None
    with s show ?thesis by (simp add: structuredStep_def Let_def)
  next
    case (Some sc)
    with assms(1) have "noOwnToString sc" by (rule getProp_noOwnToString)
    then obtain n where "toNumber rt sc = Inr n"
      using toNumber_returns by blast
    with s Some show ?thesis by (simp add: structuredStep_def Let_def)
  qed
qed

lemma frameStep_returns:
  assumes "noOwnToString fr"
  shows "\<exists>st'. frameStep rt fr st = Inr st'"
proof (cases "structuredBest fr")
  case None
  then show ?thesis by (simp add: frameStep_def split: json.splits)
next
  case (Some p)
  obtain best lab where p: "p = (best, lab)" by (cases p)
  from structuredBest_noOwnToString [OF assms Some [unfolded p]]
  obtain st' where "structuredStep rt best lab st = Inr st'"
    using structuredStep_returns by blast
  with Some p show ?thesis by (simp add: frameStep_def)
qed

lemma frameLoop_returns: "noOwnToStringElems frs \<Longrightarrow> \<exists>st'. frameLoop rt frs st = Inr st'"
proof (induction frs arbitrary: st)
  case Nil
  then show ?case by simp
next
  case (Cons fr frs)
  then obtain st1 where "frameStep rt fr st = Inr st1"
    using frameStep_returns [of fr rt st] by auto
  with Cons show ?case by simp
qed

lemma aggregate_returns: "noOwnToStringElems frs \<Longrightarrow> \<exists>r. aggregateFrameResults rt frs = Inr r"
  using frameLoop_returns [of frs rt "(0, [])"] by (auto simp: aggregateFrameResults_def)

lemma frameStep_classified:
  "label \<noteq> [] \<Longrightarrow> frameStep rt (classified n label s) st =
     Inr (if fakeWords (toLowerCase label) then fst st + 1 else fst st,
          snd st @ (if s = 0 then [] else [Fin (of_int (roundHalfUp (s * 100)))]))"
  by (simp add: frameStep_def classified_def structuredBest_def structuredStep_def Let_def)

lemma real_is_no_vote: "\<not> fakeWords (toLowerCase ''real'')"
  by code_simp

lemma fake_label_votes: "includesStr (toLowerCase l) ''fake'' \<Longrightarrow> l \<noteq> [] \<and> fakeWords (toLowerCase l)"
  by (auto simp: fakeWords_def toLowerCase_def)

lemma two_fake_of_three:
  assumes "includesStr (toLowerCase l1) ''fake''" and "includesStr (toLowerCase l2) ''fake''"
    and "frs \<in> set [[classified n1 l1 s1, classified n2 l2 s2, classified n3 ''real'' s3],
                     [classified n1 l1 s1, classified n3 ''real'' s3, classified n2 l2 s2],
                     [classified n3 ''real'' s3, classified n1 l1 s1, classified n2 l2 s2]]"
  shows "\<exists>r. aggregateFrameResults rt frs = Inr r \<and> fakeVotes r = 2 \<and> ratio r = 2 / 3 \<and> verdict r = LikelyFake"
proof -
  from assms(3) have "\<exists>cs. frameLoop rt frs (0, []) = Inr (2, cs) \<and> length frs = 3"
    using fake_label_votes [OF assms(1)] fake_label_votes [OF assms(2)] real_is_no_vote
    by (auto simp: frameStep_classified)
  then show ?thesis
    by (auto simp: aggregateFrameResults_def finish_ratio finish_votes finish_verdict)
qed


text \<open>
  C10. On the empty sequence the aggregator returns: the divisor \<^verbatim>\<open>total\<close> is 1, there
  are no fake votes, the ratio is 0, the verdict is \<open>likely_real\<close> and the confidence
  is 40.
\<close>

theorem aggregate_empty:
  "aggregateFrameResults rt [] =
     Inr \<lparr>verdict = LikelyReal, confidence = Fin 40, ratio = 0, fakeVotes = 0, total = 1, avgConf = None\<rparr>"
  by (simp add: aggregateFrameResults_def finish_def estimate_def round_40)

text \<open>
  C1. The aggregator returns on every sequence in which no object has an own property named
  \<^verbatim>\<open>toString\<close>. For a non-empty sequence of frame results on which it returns, the
  ratio is the number of fake votes over the number of entries, and the verdict depends on
  the ratio alone: \<open>likely_fake\<close> above 0.4, \<open>likely_real\<close> below 0.1, \<open>inconclusive\<close>
  otherwise, so also at exactly 0.4 and exactly 0.1. Three classified frames of which two
  have a top label containing "fake" (in any letter case) and one has the label "real"
  give two votes, the ratio 2/3 and the verdict \<open>likely_fake\<close>, in whatever order they come.
\<close>

theorem verdict_by_ratio:
  "(noOwnToStringElems frs \<longrightarrow> (\<exists>r. aggregateFrameResults rt frs = Inr r)) \<and>
   (frs \<noteq> [] \<and> aggregateFrameResults rt frs = Inr r \<longrightarrow>
      ratio r = of_nat (fakeVotes r) / of_nat (length frs) \<and>
      verdict r = (if 4 / 10 < ratio r then LikelyFake
                   else if ratio r < 1 / 10 then LikelyReal else Inconclusive) \<and>
      (ratio r = 4 / 10 \<longrightarrow> verdict r = Inconclusive) \<and>
      (ratio r = 1 / 10 \<longrightarrow> verdict r = Inconclusive)) \<and>
   (includesStr (toLowerCase l1) ''fake'' \<and> includesStr (toLowerCase l2) ''fake'' \<and>
    fs \<in> set [[classified n1 l1 s1, classified n2 l2 s2, classified n3 ''real'' s3],
               [classified n1 l1 s1, classified n3 ''real'' s3, classified n2 l2 s2],
               [classified n3 ''real'' s3, classified n1 l1 s1, classified n2 l2 s2]] \<longrightarrow>
      (\<exists>r'. aggregateFrameResults rt fs = Inr r' \<and> fakeVotes r' = 2 \<and> ratio r' = 2 / 3 \<and>
            verdict r' = LikelyFake))"
proof (intro conjI impI)
  assume "noOwnToStringElems frs"
  then show "\<exists>r. aggregateFrameResults rt frs = Inr r" by (rule aggregate_returns)
next
  assume a: "frs \<noteq> [] \<and> aggregateFrameResults rt frs = Inr r"
  then obtain st where r: "r = finish (length frs) st"
    by (auto simp: aggregateFrameResults_def split: sum.splits)
  show "ratio r = of_nat (fakeVotes r) / of_nat (length frs)"
    using a by (simp add: r finish_ratio finish_votes)
  show "verdict r = (if 4 / 10 < ratio r then LikelyFake
                     else if ratio r < 1 / 10 then LikelyReal else Inconclusive)"
    by (simp add: r finish_verdict)
  show "ratio r = 4 / 10 \<Longrightarrow> verdict r = Inconclusive"
    by (simp add: r finish_verdict)
  show "ratio r = 1 / 10 \<Longrightarrow> verdict r = Inconclusive"
    by (simp add: r finish_verdict)
next
  assume "includesStr (toLowerCase l1) ''fake'' \<and> includesStr (toLowerCase l2) ''fake'' \<and>
    fs \<in> set [[classified n1 l1 s1, classified n2 l2 s2, classified n3 ''real'' s3],
               [classified n1 l1 s1, classified n3 ''real'' s3, classified n2 l2 s2],
               [classified n3 ''real'' s3, classified n1 l1 s1, classified n2 l2 s2]]"
  then show "\<exists>r'. aggregateFrameResults rt fs = Inr r' \<and> fakeVotes r' = 2 \<and> ratio r' = 2 / 3 \<and>
            verdict r' = LikelyFake"
    using two_fake_of_three [of l1 l2 fs n1 s1 n2 s2 n3 s3 rt] by blast
qed

theorem verdict_by_ratio_witness:
  "noOwnToStringElems specScenario \<and> specScenario \<noteq> [] \<and>
   aggregateFrameResults plainRuntime specScenario =
     Inr \<lparr>verdict = LikelyFake, confidence = Fin 87, ratio = 2 / 3, fakeVotes = 2, total = 3,
          avgConf = Some (Fin 87)\<rparr> \<and>
   (2 / 3 :: rat) = of_nat 2 / of_nat (length specScenario) \<and>
   includesStr (toLowerCase ''fake'') ''fake'' \<and>
   specScenario \<in> set [[classified ''frame-000001.jpg'' ''fake'' (9 / 10),
                        classified ''frame-000002.jpg'' ''fake'' (9 / 10),
                        classified ''frame-000003.jpg'' ''real'' (8 / 10)]]"
proof -
  have ev: "aggregateFrameResults plainRuntime specScenario =
     Inr \<lparr>verdict = LikelyFake, confidence = Fin 87, ratio = 2 / 3, fakeVotes = 2, total = 3,
          avgConf = Some (Fin 87)\<rparr>"
    by code_simp
  have ne: "specScenario \<noteq> []" and inc: "includesStr (toLowerCase ''fake'') ''fake''"
    by (simp add: specScenario_def, code_simp)
  have pl: "noOwnToStringElems specScenario"
    by (simp add: specScenario_def classified_def)
  from ev ne inc pl
    verdict_by_ratio [where frs = specScenario and rt = plainRuntime and
      r = "\<lparr>verdict = LikelyFake, confidence = Fin 87, ratio = 2 / 3, fakeVotes = 2, total = 3,
            avgConf = Some (Fin 87)\<rparr>"]
  show ?thesis by (simp add: specScenario_def)
qed

lemma roundHalfUp_mono: "a \<le> b \<Longrightarrow> roundHalfUp a \<le> roundHalfUp b"
  by (simp add: roundHalfUp_def floor_mono)

lemma roundHalfUp_int: "roundHalfUp (of_int k) = k"
  by (simp add: roundHalfUp_def) linarith

lemma roundHalfUp_bounds:
  "of_int lo \<le> q \<Longrightarrow> q \<le> of_int hi \<Longrightarrow> lo \<le> roundHalfUp q \<and> roundHalfUp q \<le> hi"
  using roundHalfUp_mono [of "of_int lo" q] roundHalfUp_mono [of q "of_int hi"]
  by (simp add: roundHalfUp_int)

lemma estimate_bounds: "40 \<le> estimate r \<and> estimate r \<le> 100"
  by (simp add: estimate_def)

lemma percent_estimate: "percent (Fin (of_int (roundHalfUp (estimate r))))"
  using roundHalfUp_bounds [of 40 "estimate r" 100] estimate_bounds [of r] by simp

lemma sum_finite: "foldl jsPlus (Fin a) (map Fin qs) = Fin (a + sum_list qs)"
  by (induction qs arbitrary: a) (simp_all add: add.assoc)

lemma average_finite:
  "average (map Fin qs) = Fin (sum_list qs / of_nat (length qs))"
  by (simp add: average_def sum_finite)

lemma percent_finite: "list_all percent cs \<Longrightarrow> \<exists>qs. cs = map Fin qs \<and> (\<forall>q \<in> set qs. 0 \<le> q \<and> q \<le> 100)"
proof (induction cs)
  case Nil
  then show ?case by simp
next
  case (Cons c cs)
  then obtain qs where qs: "cs = map Fin qs" "\<forall>q \<in> set qs. 0 \<le> q \<and> q \<le> 100" by auto
  from Cons.prems obtain q where q: "c = Fin q" "0 \<le> q" "q \<le> 100" by (cases c) auto
  have "c # cs = map Fin (q # qs)" using q qs by simp
  moreover have "\<forall>x \<in> set (q # qs). 0 \<le> x \<and> x \<le> 100" using q qs by simp
  ultimately show ?case by (intro exI [of _ "q # qs"]) simp
qed

lemma sum_list_bounds:
  "\<forall>q \<in> set qs. 0 \<le> q \<and> q \<le> (100::rat) \<Longrightarrow> 0 \<le> sum_list qs \<and> sum_list qs \<le> 100 * of_nat (length qs)"
  by (induction qs) (auto simp: algebra_simps)

lemma mean_bounds:
  assumes "qs \<noteq> []" and "\<forall>q \<in> set qs. 0 \<le> q \<and> q \<le> (100::rat)"
  shows "0 \<le> sum_list qs / of_nat (length qs) \<and> sum_list qs / of_nat (length qs) \<le> 100"
proof -
  have n: "(0::rat) < of_nat (length qs)" using assms(1) by simp
  from sum_list_bounds [OF assms(2)] n show ?thesis
    by (simp add: divide_le_eq)
qed

lemma finish_confidence:
  "confidence (finish len st) =
     (if snd st \<noteq> [] \<and> numTruthy (mathRound (average (snd st)))
      then mathRound (average (snd st))
      else Fin (of_int (roundHalfUp (estimate (ratio (finish len st))))))"
  by (simp add: finish_def Let_def)

lemma finish_confidence_percent:
  assumes "list_all percent (snd st)"
  shows "percent (confidence (finish len st))"
proof (cases "snd st \<noteq> [] \<and> numTruthy (mathRound (average (snd st)))")
  case False
  then have "confidence (finish len st) = Fin (of_int (roundHalfUp (estimate (ratio (finish len st)))))"
    by (auto simp: finish_confidence)
  then show ?thesis by (simp only: percent_estimate)
next
  case True
  from percent_finite [OF assms] obtain qs where qs: "snd st = map Fin qs"
    "\<forall>q \<in> set qs. 0 \<le> q \<and> q \<le> 100" by blast
  with True have ne: "qs \<noteq> []" by auto
  from mean_bounds [OF ne qs(2)] roundHalfUp_bounds [of 0 "sum_list qs / of_nat (length qs)" 100]
  have "percent (mathRound (average (snd st)))"
    by (simp add: qs(1) average_finite)
  with True show ?thesis by (simp add: finish_confidence)
qed

lemma finish_ratio_unit:
  assumes "fst st \<le> len"
  shows "0 \<le> ratio (finish len st) \<and> ratio (finish len st) \<le> 1"
proof (cases "len = 0")
  case True then show ?thesis using assms by (simp add: finish_ratio)
next
  case False
  then have "(0::rat) < of_nat len" by simp
  then show ?thesis using assms False by (simp add: finish_ratio divide_le_eq)
qed

text \<open>
  C3, as the code has it. The aggregator returns on every sequence in which no object has
  an own property named \<^verbatim>\<open>toString\<close> (only the coercion of such a label or score can
  raise). Whenever it returns on a non-empty sequence, the ratio lies in [0,1]; the
  confidence lies in [0,100] provided every confidence sample the loop collected is a
  number in [0,100]. Nothing in the code bounds a sample: a top score above 1 or a text
  \<^verbatim>\<open>confidence: 999\<close> goes into the average as it is.
\<close>

theorem ratio_and_confidence_ranges:
  "(noOwnToStringElems frs \<longrightarrow> (\<exists>r. aggregateFrameResults rt frs = Inr r)) \<and>
   (frs \<noteq> [] \<and> aggregateFrameResults rt frs = Inr r \<and>
    frameLoop rt frs (0, []) = Inr (votes, samples) \<longrightarrow>
      0 \<le> ratio r \<and> ratio r \<le> 1 \<and> (list_all percent samples \<longrightarrow> percent (confidence r)))"
proof (intro conjI impI)
  assume "noOwnToStringElems frs"
  then show "\<exists>r. aggregateFrameResults rt frs = Inr r" by (rule aggregate_returns)
next
  assume a: "frs \<noteq> [] \<and> aggregateFrameResults rt frs = Inr r \<and>
    frameLoop rt frs (0, []) = Inr (votes, samples)"
  then have r: "r = finish (length frs) (votes, samples)"
    by (auto simp: aggregateFrameResults_def)
  from a frameLoop_votes [of rt frs "(0, [])" "(votes, samples)"] have v: "votes \<le> length frs" by simp
  from v show "0 \<le> ratio r" "ratio r \<le> 1"
    using finish_ratio_unit [of "(votes, samples)" "length frs"] by (simp_all add: r)
  assume "list_all percent samples"
  then show "percent (confidence r)"
    using finish_confidence_percent [of "(votes, samples)" "length frs"] by (simp add: r)
qed

theorem ratio_and_confidence_ranges_witness:
  "noOwnToStringElems specScenario \<and> specScenario \<noteq> [] \<and>
   aggregateFrameResults plainRuntime specScenario =
     Inr \<lparr>verdict = LikelyFake, confidence = Fin 87, ratio = 2 / 3, fakeVotes = 2, total = 3,
          avgConf = Some (Fin 87)\<rparr> \<and>
   frameLoop plainRuntime specScenario (0, []) = Inr (2, [Fin 90, Fin 90, Fin 80]) \<and>
   list_all percent [Fin 90, Fin 90, Fin 80] \<and>
   (0::rat) \<le> 2 / 3 \<and> (2 / 3 :: rat) \<le> 1 \<and> percent (Fin 87)"
proof -
  have ev: "aggregateFrameResults plainRuntime specScenario =
     Inr \<lparr>verdict = LikelyFake, confidence = Fin 87, ratio = 2 / 3, fakeVotes = 2, total = 3,
          avgConf = Some (Fin 87)\<rparr>"
    by code_simp
  have lp: "frameLoop plainRuntime specScenario (0, []) = Inr (2, [Fin 90, Fin 90, Fin 80])"
    by code_simp
  have ok: "noOwnToStringElems specScenario" "specScenario \<noteq> []"
    by (simp_all add: specScenario_def classified_def)
  from ev lp ok
    ratio_and_confidence_ranges [where frs = specScenario and rt = plainRuntime and votes = 2 and
      samples = "[Fin 90, Fin 90, Fin 80]" and
      r = "\<lparr>verdict = LikelyFake, confidence = Fin 87, ratio = 2 / 3, fakeVotes = 2, total = 3,
            avgConf = Some (Fin 87)\<rparr>"]
  show ?thesis by simp
qed

text \<open>
  C3 as stated fails: one free-text frame result reading \<^verbatim>\<open>confidence: 999\<close> yields the
  confidence 999.
\<close>

theorem confidence_out_of_range:
  "aggregateFrameResults plainRuntime [JStr ''confidence: 999''] =
     Inr \<lparr>verdict = LikelyReal, confidence = Fin 999, ratio = 0, fakeVotes = 0, total = 1,
          avgConf = Some (Fin 999)\<rparr> \<and>
   \<not> percent (Fin 999)"
  by code_simp




text \<open>
  A rounded mean of 0 is falsy, so \<^verbatim>\<open>avgConf || ...\<close> discards it for the estimate: a single
  text result \<^verbatim>\<open>confidence: 0\<close> has the average 0 and the confidence 40.
\<close>

lemma zero_average_discarded:
  "aggregateFrameResults plainRuntime [JStr ''confidence: 0''] =
     Inr \<lparr>verdict = LikelyReal, confidence = Fin 40, ratio = 0, fakeVotes = 0, total = 1,
          avgConf = Some (Fin 0)\<rparr>"
  by code_simp


section \<open>Properties of the retry helper and of the inference wrappers\<close>

lemma retryFrom_returns:
  "i < n \<Longrightarrow> fst (fn s) = Inr v \<Longrightarrow> retryFrom fn n b i le s = (Inr v, snd (fn s))"
  by (subst retryFrom.simps) (auto split: prod.splits sum.splits)

lemma retryFrom_again:
  "i < n \<Longrightarrow> fst (fn s) = Inl err \<Longrightarrow>
   retryFrom fn n b i le s =
     retryFrom fn n b (Suc i) err ((snd (fn s))\<lparr>events := events (snd (fn s)) @ [Slept (b * 2 ^ i)]\<rparr>)"
  by (subst retryFrom.simps) (auto split: prod.splits sum.splits)

lemma retryFrom_stop: "\<not> i < n \<Longrightarrow> retryFrom fn n b i le s = (Inl le, s)"
  by (subst retryFrom.simps) simp

lemma retryFrom_success:
  assumes "j < n" and "outcome fn b s j = Inr v" and "\<forall>m. i \<le> m \<and> m < j \<longrightarrow> isl (outcome fn b s m)"
    and "i \<le> j"
  shows "retryFrom fn n b i le (stateBefore fn b s i) = (Inr v, snd (fn (stateBefore fn b s j)))"
  using assms(3,4)
proof (induction "j - i" arbitrary: i le)
  case 0
  then have ij: "i = j" by simp
  show ?case using assms(1,2) ij retryFrom_returns [of j n fn "stateBefore fn b s j" v b le]
    by (simp add: outcome_def)
next
  case (Suc d)
  then have lt: "i < j" by simp
  with Suc.prems have "isl (outcome fn b s i)" by simp
  then obtain err where err: "fst (fn (stateBefore fn b s i)) = Inl err"
    by (auto simp: outcome_def isl_def)
  have ih: "retryFrom fn n b (Suc i) err (stateBefore fn b s (Suc i)) =
      (Inr v, snd (fn (stateBefore fn b s j)))"
    using Suc.hyps(1) [of "Suc i" err] Suc.hyps(2) Suc.prems lt by simp
  have "i < n" using lt assms(1) by simp
  from retryFrom_again [of i n fn "stateBefore fn b s i" err b le] this err ih
  show ?case by (simp add: Let_def)
qed

lemma retryFrom_exhausted:
  assumes "\<forall>m. i \<le> m \<and> m < n \<longrightarrow> isl (outcome fn b s m)" and "i < n"
  shows "retryFrom fn n b i le (stateBefore fn b s i) = (outcome fn b s (n - 1), stateBefore fn b s n)"
  using assms
proof (induction "n - i" arbitrary: i le)
  case 0
  then show ?case by simp
next
  case (Suc d)
  then have "isl (outcome fn b s i)" by simp
  then obtain err where o: "outcome fn b s i = Inl err"
    and err: "fst (fn (stateBefore fn b s i)) = Inl err"
    by (auto simp: outcome_def isl_def)
  have step: "retryFrom fn n b i le (stateBefore fn b s i) =
      retryFrom fn n b (Suc i) err (stateBefore fn b s (Suc i))"
    using retryFrom_again [of i n fn "stateBefore fn b s i" err b le] Suc.prems(2) err
    by (simp add: Let_def)
  show ?case
  proof (cases "Suc i < n")
    case True
    have "retryFrom fn n b (Suc i) err (stateBefore fn b s (Suc i)) =
        (outcome fn b s (n - 1), stateBefore fn b s n)"
      using Suc.hyps(1) [of "Suc i" err] Suc.hyps(2) Suc.prems True by simp
    with step show ?thesis by (simp add: Let_def)
  next
    case False
    with Suc.prems(2) have n: "n = Suc i" by simp
    have "retryFrom fn n b (Suc i) err (stateBefore fn b s (Suc i)) = (Inl err, stateBefore fn b s (Suc i))"
      using n by (simp add: retryFrom_stop)
    with step o n show ?thesis by (simp add: Let_def)
  qed
qed

text \<open>
  C2. Whatever the operation does: if its first \<open>j\<close> invocations fail and the next one,
  within the budget, succeeds with \<open>v\<close>, then \<^verbatim>\<open>retry\<close> returns \<open>v\<close> and stops in the
  state that invocation left (it is not invoked again, and there is no further sleep). If
  all of a positive number of attempts fail, \<^verbatim>\<open>retry\<close> raises the very error of the last
  attempt.
\<close>

theorem retry_result:
  "(j < attempts \<and> (\<forall>i<j. isl (outcome fn baseDelay s i)) \<and> outcome fn baseDelay s j = Inr v \<longrightarrow>
      retry fn attempts baseDelay s = (Inr v, snd (fn (stateBefore fn baseDelay s j)))) \<and>
   (0 < attempts \<and> (\<forall>i<attempts. outcome fn baseDelay s i = Inl (errs i)) \<longrightarrow>
      retry fn attempts baseDelay s = (Inl (errs (attempts - 1)), stateBefore fn baseDelay s attempts))"
proof (intro conjI impI)
  assume a: "j < attempts \<and> (\<forall>i<j. isl (outcome fn baseDelay s i)) \<and> outcome fn baseDelay s j = Inr v"
  then show "retry fn attempts baseDelay s = (Inr v, snd (fn (stateBefore fn baseDelay s j)))"
    using retryFrom_success [of j attempts fn baseDelay s v 0 Undefined]
    by (simp add: retry_def)
next
  assume a: "0 < attempts \<and> (\<forall>i<attempts. outcome fn baseDelay s i = Inl (errs i))"
  then have "\<forall>m. 0 \<le> m \<and> m < attempts \<longrightarrow> isl (outcome fn baseDelay s m)" by simp
  then have "retry fn attempts baseDelay s =
      (outcome fn baseDelay s (attempts - 1), stateBefore fn baseDelay s attempts)"
    using a retryFrom_exhausted [of 0 attempts fn baseDelay s Undefined] by (simp add: retry_def)
  with a show "retry fn attempts baseDelay s = (Inl (errs (attempts - 1)), stateBefore fn baseDelay s attempts)"
    by simp
qed


theorem retry_result_witness:
  "retry (httpCall (quietEnv (failingFirst 2 (JStr ''ok''))) getDemo) 3 500 start =
     (Inr (JStr ''ok''),
      \<lparr>events = [Called getDemo, Slept 500, Called getDemo, Slept 1000, Called getDemo],
       toCleanup = []\<rparr>) \<and>
   retry (httpCall (quietEnv (failingFirst 3 (JStr ''ok''))) getDemo) 3 500 start =
     (Inl (Err ''Error'' ''failure 3''),
      \<lparr>events = [Called getDemo, Slept 500, Called getDemo, Slept 1000, Called getDemo, Slept 2000],
       toCleanup = []\<rparr>)"
proof -
  let ?twice = "httpCall (quietEnv (failingFirst 2 (JStr ''ok''))) getDemo"
  let ?thrice = "httpCall (quietEnv (failingFirst 3 (JStr ''ok''))) getDemo"
  let ?errs = "\<lambda>i. Err ''Error'' (''failure '' @ natToString (i + 1))"
  have a0: "isl (outcome ?twice 500 start 0)" by code_simp
  have a1: "isl (outcome ?twice 500 start 1)" by code_simp
  have a2: "outcome ?twice 500 start 2 = Inr (JStr ''ok'')" by code_simp
  have a: "\<forall>i<2. isl (outcome ?twice 500 start i)"
  proof (intro allI impI)
    fix i :: nat
    assume "i < 2"
    then consider "i = 0" | "i = 1" by linarith
    then show "isl (outcome ?twice 500 start i)"
      by cases (simp_all only: a0 a1)
  qed
  have fin: "snd (?twice (stateBefore ?twice 500 start 2)) =
      \<lparr>events = [Called getDemo, Slept 500, Called getDemo, Slept 1000, Called getDemo],
       toCleanup = []\<rparr>"
    by code_simp
  have b0: "outcome ?thrice 500 start 0 = Inl (?errs 0)" by code_simp
  have b1: "outcome ?thrice 500 start 1 = Inl (?errs 1)" by code_simp
  have b2: "outcome ?thrice 500 start 2 = Inl (?errs 2)" by code_simp
  have b: "\<forall>i<3. outcome ?thrice 500 start i = Inl (?errs i)"
  proof (intro allI impI)
    fix i :: nat
    assume "i < 3"
    then consider "i = 0" | "i = 1" | "i = 2" by linarith
    then show "outcome ?thrice 500 start i = Inl (?errs i)"
      by cases (simp_all only: b0 b1 b2)
  qed
  have fin': "stateBefore ?thrice 500 start 3 =
      \<lparr>events = [Called getDemo, Slept 500, Called getDemo, Slept 1000, Called getDemo, Slept 2000],
       toCleanup = []\<rparr>"
    by code_simp
  have last: "?errs (3 - 1) = Err ''Error'' ''failure 3''" by code_simp
  from retry_result [where fn = ?twice and attempts = 3 and baseDelay = 500 and s = start and j = 2
      and v = "JStr ''ok''"] a a2 fin
  have one: "retry ?twice 3 500 start =
     (Inr (JStr ''ok''),
      \<lparr>events = [Called getDemo, Slept 500, Called getDemo, Slept 1000, Called getDemo],
       toCleanup = []\<rparr>)"
    by simp
  from retry_result [where fn = ?thrice and attempts = 3 and baseDelay = 500 and s = start
      and errs = ?errs] b fin' last
  have two: "retry ?thrice 3 500 start =
     (Inl (Err ''Error'' ''failure 3''),
      \<lparr>events = [Called getDemo, Slept 500, Called getDemo, Slept 1000, Called getDemo, Slept 2000],
       toCleanup = []\<rparr>)"
    by simp
  from one two show ?thesis by simp
qed

lemma bindIO_fails: "fst (bindIO m (\<lambda>x. returnIO (f x)) s) = Inl err \<longleftrightarrow> fst (m s) = Inl err"
  by (auto simp: bindIO_def returnIO_def split: prod.splits sum.splits)

lemma multimodal_fails_iff:
  "fst (multimodalCall cfg rt e promptText imagePaths model s) = Inl err \<longleftrightarrow>
   fst (retry (httpCall e (PostForm (modelUrl model) (hfApiKey cfg)
          ((''inputs'', TextPart (stringify rt (JObj [(''text'', JStr promptText)])))
           # imageParts (take 3 imagePaths)))) 3 500 s) = Inl err"
  unfolding multimodalCall_def by (rule bindIO_fails)

text \<open>
  C9. Whenever the multimodal call of \<^verbatim>\<open>callHFReportModel\<close> fails, with whatever error,
  the result is that of \<^verbatim>\<open>callHFTextModel\<close> on the audit model, run in the state the
  failed call left, with the prompt prefixed by the instruction to produce JSON. The
  result does not mention the error of the multimodal call.
\<close>

theorem report_model_falls_back:
  "fst (multimodalCall cfg rt e promptText imagePaths model s) = Inl err \<longrightarrow>
     callHFReportModel cfg rt e promptText imagePaths model s =
       callHFTextModel cfg rt e (fallbackPrompt promptText) (hfAuditModel cfg)
         (snd (multimodalCall cfg rt e promptText imagePaths model s)) \<and>
     fallbackPrompt promptText =
       ''You are an expert forensic analyst. Using the evidence below (labels & confidences), produce JSON: summary, type='deepfake', verdict('likely_fake'|'likely_real'|'inconclusive'), confidence(0-100), evidence[], recommendations[].''
       @ [CHR 0x0A, CHR 0x0A, CHR 0x0A, CHR 0x0A] @ promptText"
  by (auto simp: callHFReportModel_def catchIO_def fallbackPrompt_def joinWith_def blankLine_def
      split: prod.splits sum.splits)

theorem report_model_falls_back_witness:
  "fst (multimodalCall demoConfig plainRuntime (quietEnv formsDown) ''P'' [''a.jpg''] ''m'' start) =
     Inl (Err ''AxiosError'' ''Request failed with status code 503'') \<and>
   fst (callHFReportModel demoConfig plainRuntime (quietEnv formsDown) ''P'' [''a.jpg''] ''m'' start) =
     Inr (JStr ''{}'')"
proof -
  have f: "fst (multimodalCall demoConfig plainRuntime (quietEnv formsDown) ''P'' [''a.jpg''] ''m'' start) =
     Inl (Err ''AxiosError'' ''Request failed with status code 503'')"
    by code_simp
  have t: "fst (callHFTextModel demoConfig plainRuntime (quietEnv formsDown) (fallbackPrompt ''P'')
              (hfAuditModel demoConfig)
              (snd (multimodalCall demoConfig plainRuntime (quietEnv formsDown) ''P'' [''a.jpg''] ''m''
                      start))) = Inr (JStr ''{}'')"
    by code_simp
  from report_model_falls_back [where cfg = demoConfig and rt = plainRuntime and
      e = "quietEnv formsDown" and promptText = "''P''" and imagePaths = "[''a.jpg'']" and
      model = "''m''" and s = start and err = "Err ''AxiosError'' ''Request failed with status code 503''"] f t
  show ?thesis by simp
qed


section \<open>Properties of the pipelines and of the run controller\<close>

lemma retryFrom_http_events:
  "retryFrom (httpCall e c) n b i le s = (r, s') \<Longrightarrow>
   \<exists>new. events s' = events s @ new \<and> list_all (callOrSleep c) new \<and> toCleanup s' = toCleanup s"
proof (induction "n - i" arbitrary: i le s)
  case 0
  then show ?case by (simp add: retryFrom_stop)
next
  case (Suc d)
  then have lt: "i < n" by simp
  let ?s1 = "record_call c s"
  show ?case
  proof (cases "http e (events s) c")
    case (Inr v)
    then have "fst (httpCall e c s) = Inr v" by (simp add: httpCall_def)
    from retryFrom_returns [of i n "httpCall e c" s v b le] lt this Suc.prems
    have "s' = ?s1" by (simp add: httpCall_def)
    then have "events s' = events s @ [Called c] \<and> list_all (callOrSleep c) [Called c] \<and>
        toCleanup s' = toCleanup s"
      by (simp add: record_call_def)
    then show ?thesis by blast
  next
    case (Inl err)
    let ?s2 = "?s1\<lparr>events := events ?s1 @ [Slept (b * 2 ^ i)]\<rparr>"
    from Inl have "fst (httpCall e c s) = Inl err" by (simp add: httpCall_def)
    from retryFrom_again [of i n "httpCall e c" s err b le] lt this Suc.prems
    have rec: "retryFrom (httpCall e c) n b (Suc i) err ?s2 = (r, s')"
      by (simp add: httpCall_def)
    have "\<exists>new. events s' = events ?s2 @ new \<and> list_all (callOrSleep c) new \<and>
        toCleanup s' = toCleanup ?s2"
      using Suc.hyps(1) [of "Suc i" err ?s2] Suc.hyps(2) rec by simp
    then obtain new where "events s' = events ?s2 @ new" "list_all (callOrSleep c) new"
      "toCleanup s' = toCleanup ?s2" by blast
    then have "events s' = events s @ (Called c # Slept (b * 2 ^ i) # new) \<and>
        list_all (callOrSleep c) (Called c # Slept (b * 2 ^ i) # new) \<and> toCleanup s' = toCleanup s"
      by (simp add: record_call_def)
    then show ?thesis by blast
  qed
qed

lemma getReport_events:
  "getReport cfg e reportId s = (r, s') \<Longrightarrow>
   \<exists>new. events s' = events s @ new \<and>
     list_all (callOrSleep (Get (reportUrl cfg reportId) (serviceKey cfg))) new \<and> toCleanup s' = toCleanup s"
  unfolding getReport_def retry_def by (rule retryFrom_http_events)

lemma run_completed:
  assumes "getReport cfg e reportId s = (Inr report, s')"
    and "getProp report ''status'' = Some (JStr ''completed'')"
  shows "run cfg rt e reportId s = (Inr (), s')"
proof -
  from assms(2) have "truthy report" by (cases report) auto
  with assms show ?thesis by (simp add: run_def bindIO_def returnIO_def)
qed


lemma retryFrom_http_first:
  assumes "retryFrom (httpCall e c) n b i le s = (r, s')" and "i < n"
  shows "\<exists>rest. events s' = events s @ Called c # rest"
proof (cases "http e (events s) c")
  case (Inr v)
  then have "fst (httpCall e c s) = Inr v" by (simp add: httpCall_def)
  from retryFrom_returns [of i n "httpCall e c" s v b le] assms this
  have "s' = record_call c s" by (simp add: httpCall_def)
  then show ?thesis by (simp add: record_call_def)
next
  case (Inl err)
  let ?s1 = "record_call c s"
  let ?s2 = "?s1\<lparr>events := events ?s1 @ [Slept (b * 2 ^ i)]\<rparr>"
  from Inl have "fst (httpCall e c s) = Inl err" by (simp add: httpCall_def)
  from retryFrom_again [of i n "httpCall e c" s err b le] assms this
  have "retryFrom (httpCall e c) n b (Suc i) err ?s2 = (r, s')"
    by (simp add: httpCall_def)
  from retryFrom_http_events [OF this] obtain new where "events s' = events ?s2 @ new" by blast
  then show ?thesis by (simp add: record_call_def)
qed

lemma patchReport_events:
  assumes "patchReport cfg e reportId result status s = (r, s')"
  shows "\<exists>rest. events s' =
           events s @ Called (Patch (reportUrl cfg reportId) (serviceKey cfg)
                                (JObj [(''result'', result), (''status'', JStr status)])) # rest \<and>
           list_all (callOrSleep (Patch (reportUrl cfg reportId) (serviceKey cfg)
                                (JObj [(''result'', result), (''status'', JStr status)]))) rest \<and>
           toCleanup s' = toCleanup s"
proof -
  let ?c = "Patch (reportUrl cfg reportId) (serviceKey cfg)
              (JObj [(''result'', result), (''status'', JStr status)])"
  from assms have r: "retryFrom (httpCall e ?c) 3 500 0 Undefined s = (r, s')"
    by (simp add: patchReport_def retry_def)
  from retryFrom_http_first [OF r] obtain rest where rest: "events s' = events s @ Called ?c # rest"
    by auto
  from retryFrom_http_events [OF r] obtain new where new: "events s' = events s @ new"
    "list_all (callOrSleep ?c) new" "toCleanup s' = toCleanup s" by blast
  from rest new(1) have "new = Called ?c # rest" by simp
  with new rest show ?thesis by auto
qed

lemma fetch_is_no_patch: "list_all (callOrSleep (Get url key)) new \<Longrightarrow> filter isPatch new = []"
proof (induction new)
  case Nil
  then show ?case by simp
next
  case (Cons ev new)
  then show ?case by (cases ev) auto
qed

text \<open>
  C6. When the fetched report has the status \<open>completed\<close>, \<^verbatim>\<open>run\<close> returns normally in
  the very state the fetch left: nothing is executed after the fetch, the Report Store
  receives no \<^verbatim>\<open>PATCH\<close>, and nothing is registered for cleanup.
\<close>

theorem completed_report_zero_writes:
  "getReport cfg e reportId s = (Inr report, s') \<and>
   getProp report ''status'' = Some (JStr ''completed'') \<longrightarrow>
     run cfg rt e reportId s = (Inr (), s') \<and>
     filter isPatch (events s') = filter isPatch (events s) \<and>
     toCleanup s' = toCleanup s"
proof (intro impI)
  assume a: "getReport cfg e reportId s = (Inr report, s') \<and>
    getProp report ''status'' = Some (JStr ''completed'')"
  then have r: "run cfg rt e reportId s = (Inr (), s')" by (simp add: run_completed)
  from a getReport_events [of cfg e reportId s "Inr report" s']
  obtain new where new: "events s' = events s @ new"
    "list_all (callOrSleep (Get (reportUrl cfg reportId) (serviceKey cfg))) new"
    "toCleanup s' = toCleanup s" by blast
  from new(2) have "filter isPatch new = []" by (rule fetch_is_no_patch)
  with r new show "run cfg rt e reportId s = (Inr (), s') \<and>
     filter isPatch (events s') = filter isPatch (events s) \<and> toCleanup s' = toCleanup s"
    by simp
qed

text \<open>
  C5, as the code has it: the guard at the entry of \<^verbatim>\<open>run\<close> tests for \<open>completed\<close> only.
  For a report whose status is \<open>completed\<close>, every event the run adds is the \<^verbatim>\<open>GET\<close> of
  that report or a sleep between fetch attempts: no pipeline call and no write.
\<close>

theorem completed_report_not_reprocessed:
  "getReport cfg e reportId s = (Inr report, s') \<and>
   getProp report ''status'' = Some (JStr ''completed'') \<longrightarrow>
     (\<exists>new. events (snd (run cfg rt e reportId s)) = events s @ new \<and>
        list_all (callOrSleep (Get (reportUrl cfg reportId) (serviceKey cfg))) new)"
proof (intro impI)
  assume a: "getReport cfg e reportId s = (Inr report, s') \<and>
    getProp report ''status'' = Some (JStr ''completed'')"
  then have r: "run cfg rt e reportId s = (Inr (), s')" by (simp add: run_completed)
  from a getReport_events [of cfg e reportId s "Inr report" s'] r
  show "\<exists>new. events (snd (run cfg rt e reportId s)) = events s @ new \<and>
        list_all (callOrSleep (Get (reportUrl cfg reportId) (serviceKey cfg))) new"
    by auto
qed

lemma analyzeDeepfake_zero_frames:
  assumes "getProp report ''fileUrl'' = Some fileUrl" and "truthy fileUrl"
    and "downloadFromGCS cfg rt e fileUrl s = (Inr localVideo, s1)"
    and "extractFrames rt e localVideo (pathJoin rt (tempDir cfg) (''frames-'' @ runId))
           (framesPerSecond cfg) (s1\<lparr>toCleanup := toCleanup s1 @ [localVideo]\<rparr>) = (Inr [], s2)"
  shows "analyzeDeepfake cfg rt e report runId s =
           (Inl (Err ''Error'' ''No frames extracted''),
            s2\<lparr>toCleanup := toCleanup s2 @ [pathJoin rt (tempDir cfg) (''frames-'' @ runId)]\<rparr>)"
  using assms
  by (simp add: analyzeDeepfake_def bindIO_def pushCleanup_def throwIO_def Let_def)

lemma process_failure:
  assumes "dispatch cfg rt e report runId s = (Inl err, s')"
  shows "process cfg rt e reportId report runId s =
           (Inr (), snd (patchReport cfg e reportId (failureResult err) ''failed'' s'))"
  using assms
  by (auto simp: process_def catchIO_def bindIO_def returnIO_def split: prod.splits sum.splits)


text \<open>
  C7. In a deepfake run whose download succeeds and whose frame extraction yields no
  frame, \<^verbatim>\<open>analyzeDeepfake\<close> raises \<^verbatim>\<open>No frames extracted\<close> in the state the extraction
  left, with no classifier call and no aggregation; \<^verbatim>\<open>run\<close> then returns normally, and
  all it does after the extraction is to send the \<^verbatim>\<open>PATCH\<close> with status \<open>failed\<close> (once,
  or again after a sleep when the store rejects it) and to remove the temporary paths.
  No \<^verbatim>\<open>PATCH\<close> with status \<open>completed\<close> is sent.
\<close>

theorem zero_frames_fail_the_run:
  "getReport cfg e reportId s0 = (Inr report, sa) \<and>
   getProp report ''type'' = Some (JStr ''deepfake'') \<and>
   getProp report ''status'' \<noteq> Some (JStr ''completed'') \<and>
   getProp report ''fileUrl'' = Some fileUrl \<and> truthy fileUrl \<and>
   runId = reportId @ ''-'' @ natToString (clock e (events sa) Now) \<and>
   framesDir = pathJoin rt (tempDir cfg) (''frames-'' @ runId) \<and>
   downloadFromGCS cfg rt e fileUrl ((record_call Now sa)\<lparr>toCleanup := []\<rparr>) = (Inr localVideo, s1) \<and>
   extractFrames rt e localVideo framesDir (framesPerSecond cfg)
     (s1\<lparr>toCleanup := toCleanup s1 @ [localVideo]\<rparr>) = (Inr [], s2) \<longrightarrow>
     analyzeDeepfake cfg rt e report runId ((record_call Now sa)\<lparr>toCleanup := []\<rparr>) =
       (Inl (Err ''Error'' ''No frames extracted''), s2\<lparr>toCleanup := toCleanup s2 @ [framesDir]\<rparr>) \<and>
     (\<exists>final rest.
        run cfg rt e reportId s0 = (Inr (), final) \<and>
        events final =
          events s2 @
          Called (Patch (reportUrl cfg reportId) (serviceKey cfg)
                    (JObj [(''result'', JObj [(''summary'', JStr ''worker failed''),
                                              (''notes'', JStr ''No frames extracted'')]),
                           (''status'', JStr ''failed'')])) # rest @
          map (\<lambda>p. Called (Rm p)) (toCleanup s2 @ [framesDir]) \<and>
        list_all (callOrSleep (Patch (reportUrl cfg reportId) (serviceKey cfg)
                    (JObj [(''result'', JObj [(''summary'', JStr ''worker failed''),
                                              (''notes'', JStr ''No frames extracted'')]),
                           (''status'', JStr ''failed'')]))) rest)"
proof (intro impI, elim conjE)
  let ?P = "Patch (reportUrl cfg reportId) (serviceKey cfg)
              (JObj [(''result'', JObj [(''summary'', JStr ''worker failed''),
                                        (''notes'', JStr ''No frames extracted'')]),
                     (''status'', JStr ''failed'')])"
  let ?s = "(record_call Now sa)\<lparr>toCleanup := []\<rparr>"
  let ?s3 = "s2\<lparr>toCleanup := toCleanup s2 @ [framesDir]\<rparr>"
  let ?err = "Err ''Error'' ''No frames extracted''"
  assume g: "getReport cfg e reportId s0 = (Inr report, sa)"
    and ty: "getProp report ''type'' = Some (JStr ''deepfake'')"
    and st: "getProp report ''status'' \<noteq> Some (JStr ''completed'')"
    and fu: "getProp report ''fileUrl'' = Some fileUrl" and tf: "truthy fileUrl"
    and rid: "runId = reportId @ ''-'' @ natToString (clock e (events sa) Now)"
    and fd: "framesDir = pathJoin rt (tempDir cfg) (''frames-'' @ runId)"
    and dl: "downloadFromGCS cfg rt e fileUrl ?s = (Inr localVideo, s1)"
    and ex: "extractFrames rt e localVideo framesDir (framesPerSecond cfg)
               (s1\<lparr>toCleanup := toCleanup s1 @ [localVideo]\<rparr>) = (Inr [], s2)"
  have an: "analyzeDeepfake cfg rt e report runId ?s = (Inl ?err, ?s3)"
    using analyzeDeepfake_zero_frames [OF fu tf dl ex [unfolded fd]] by (simp only: fd)
  with ty have "dispatch cfg rt e report runId ?s = (Inl ?err, ?s3)"
    by (simp add: dispatch_def)
  then have pr: "process cfg rt e reportId report runId ?s =
      (Inr (), snd (patchReport cfg e reportId (failureResult ?err) ''failed'' ?s3))"
    by (rule process_failure)
  obtain r final0 where pa: "patchReport cfg e reportId (failureResult ?err) ''failed'' ?s3 = (r, final0)"
    by (cases "patchReport cfg e reportId (failureResult ?err) ''failed'' ?s3")
  have fr: "failureResult ?err =
      JObj [(''summary'', JStr ''worker failed''), (''notes'', JStr ''No frames extracted'')]"
    by (simp add: failureResult_def)
  from patchReport_events [OF pa] obtain rest where rest:
    "events final0 = events ?s3 @ Called ?P # rest" "list_all (callOrSleep ?P) rest"
    "toCleanup final0 = toCleanup ?s3"
    unfolding fr by blast
  from fu have tr: "truthy report" by (cases report) auto
  have "run cfg rt e reportId s0 =
      (case process cfg rt e reportId report runId ?s of (r, s') \<Rightarrow> (r, cleanup s'))"
    using g tr st by (simp add: run_def bindIO_def nowCall_def Let_def rid)
  with pr pa have rn: "run cfg rt e reportId s0 = (Inr (), cleanup final0)"
    by simp
  have ev: "events (cleanup final0) =
      events s2 @ Called ?P # rest @ map (\<lambda>p. Called (Rm p)) (toCleanup s2 @ [framesDir])"
    using rest by (simp add: cleanup_def)
  from rn ev rest(2)
  have "\<exists>final rest.
        run cfg rt e reportId s0 = (Inr (), final) \<and>
        events final = events s2 @ Called ?P # rest @
          map (\<lambda>p. Called (Rm p)) (toCleanup s2 @ [framesDir]) \<and>
        list_all (callOrSleep ?P) rest"
    by blast
  with an show "analyzeDeepfake cfg rt e report runId ?s = (Inl ?err, ?s3) \<and>
     (\<exists>final rest.
        run cfg rt e reportId s0 = (Inr (), final) \<and>
        events final = events s2 @ Called ?P # rest @
          map (\<lambda>p. Called (Rm p)) (toCleanup s2 @ [framesDir]) \<and>
        list_all (callOrSleep ?P) rest)"
    by (rule conjI)
qed

text \<open>The \<^verbatim>\<open>try\<close> block of \<^verbatim>\<open>run\<close> with its \<^verbatim>\<open>catch\<close> never raises.\<close>

lemma process_never_raises: "fst (process cfg rt e reportId report runId s) = Inr ()"
  by (auto simp: process_def catchIO_def bindIO_def returnIO_def split: prod.splits sum.splits)


lemma parseAudit_invalid:
  "jsonParse rt text = None \<Longrightarrow> parseAudit rt (JStr text) = Inr (defaultAudit (take 1000 text))"
  by (simp add: parseAudit_def bindE_def)

text \<open>
  Invalid JSON from the text model does not make the audit pipeline raise; a failed upload of
  the raw answer does.
\<close>

lemma audit_upload_failure_raises:
  assumes "callHFTextModel cfg rt e (auditPrompt rt report) (hfAuditModel cfg) s = (Inr (JStr text), s1)"
    and "jsonParse rt text = None"
    and "effect e (events s1) (Mkdir (tempDir cfg)) = None"
    and "effect e (events s1 @ [Called (Mkdir (tempDir cfg))])
           (WriteFile (pathJoin rt (tempDir cfg) (''audit-raw-'' @ runId @ ''.txt'')) (JStr text)) = None"
    and "uploadToGCS cfg rt e (pathJoin rt (tempDir cfg) (''audit-raw-'' @ runId @ ''.txt''))
           (''diagnostics/audit-raw-'' @ runId @ ''.txt'')
           (s1\<lparr>events := events s1 @ [Called (Mkdir (tempDir cfg)),
                   Called (WriteFile (pathJoin rt (tempDir cfg) (''audit-raw-'' @ runId @ ''.txt'')) (JStr text))],
               toCleanup := toCleanup s1 @ [pathJoin rt (tempDir cfg) (''audit-raw-'' @ runId @ ''.txt'')]\<rparr>) =
           (Inl err, s2)"
  shows "analyzeAudit cfg rt e report runId s = (Inl err, s2)"
  using assms
  by (simp add: analyzeAudit_def bindIO_def liftIO_def parseAudit_invalid effectCall_def
      pushCleanup_def record_call_def Let_def)




theorem completed_report_zero_writes_witness:
  "statusOf (fst (getReport demoConfig auditEnv ''r1'' afterFirstRun)) = Some (JStr ''completed'') \<and>
   run demoConfig plainRuntime auditEnv ''r1'' afterFirstRun = (Inr (), record_call getDemo afterFirstRun) \<and>
   length (filter isPatch (events afterFirstRun)) = 1 \<and>
   length (filter isPatch (events (record_call getDemo afterFirstRun))) = 1"
proof -
  let ?report = "storedReport (auditReport ''pending'') (events afterFirstRun)"
  have g: "getReport demoConfig auditEnv ''r1'' afterFirstRun = (Inr ?report, record_call getDemo afterFirstRun)"
    by code_simp
  have st: "getProp ?report ''status'' = Some (JStr ''completed'')"
    by code_simp
  have n: "length (filter isPatch (events afterFirstRun)) = 1"
    by code_simp
  from completed_report_zero_writes [where cfg = demoConfig and e = auditEnv and reportId = "''r1''"
      and s = afterFirstRun and report = ?report and s' = "record_call getDemo afterFirstRun"
      and rt = plainRuntime] g st n
  show ?thesis by simp
qed

theorem completed_report_not_reprocessed_witness:
  "statusOf (fst (getReport demoConfig auditEnv ''r1'' afterFirstRun)) = Some (JStr ''completed'') \<and>
   events (snd (run demoConfig plainRuntime auditEnv ''r1'' afterFirstRun)) =
     events afterFirstRun @ [Called getDemo] \<and>
   list_all (callOrSleep (Get (reportUrl demoConfig ''r1'') (serviceKey demoConfig))) [Called getDemo]"
proof -
  let ?report = "storedReport (auditReport ''pending'') (events afterFirstRun)"
  have g: "getReport demoConfig auditEnv ''r1'' afterFirstRun = (Inr ?report, record_call getDemo afterFirstRun)"
    by code_simp
  have st: "getProp ?report ''status'' = Some (JStr ''completed'')"
    by code_simp
  have ev: "events (snd (run demoConfig plainRuntime auditEnv ''r1'' afterFirstRun)) =
     events afterFirstRun @ [Called getDemo]"
    by code_simp
  have l: "list_all (callOrSleep (Get (reportUrl demoConfig ''r1'') (serviceKey demoConfig))) [Called getDemo]"
    by code_simp
  from completed_report_not_reprocessed [where cfg = demoConfig and e = auditEnv and
      reportId = "''r1''" and s = afterFirstRun and report = ?report and
      s' = "record_call getDemo afterFirstRun" and rt = plainRuntime] g st ev l
  show ?thesis by simp
qed

text \<open>
  C5 as stated fails for the status \<open>failed\<close>: a run on an audit report whose status is
  \<open>failed\<close> executes the audit pipeline and patches the report to \<open>completed\<close>.
\<close>

theorem failed_report_is_reprocessed:
  "statusOf (fst (getReport demoConfig failedEnv ''r1'' start)) = Some (JStr ''failed'') \<and>
   fst (run demoConfig plainRuntime failedEnv ''r1'' start) = Inr () \<and>
   list_ex isPipelineCall (events (snd (run demoConfig plainRuntime failedEnv ''r1'' start))) \<and>
   filter isPatch (events (snd (run demoConfig plainRuntime failedEnv ''r1'' start))) =
     [Called (Patch ''https://api.example/reports/r1'' ''service-key''
        (JObj [(''result'',
                JObj [(''summary'', JStr ''not json''),
                      (''type'', JStr ''audit''),
                      (''scores'', JObj [(''transparency'', JNum (Fin 60)), (''fairness'', JNum (Fin 50)),
                                         (''privacy'', JNum (Fin 60)), (''robustness'', JNum (Fin 55))]),
                      (''metrics'', JObj []),
                      (''flagged_issues'', JArr []),
                      (''recommendations'', JArr []),
                      (''artifacts'',
                       JObj [(''raw_output'', JStr ''gs://bucket/diagnostics/audit-raw-r1-0.txt'')])]),
               (''status'', JStr ''completed'')]))]"
  by code_simp

theorem zero_frames_fail_the_run_witness:
  "analyzeDeepfake demoConfig plainRuntime zeroEnv (deepfakeReport ''pending'') ''r1-0''
     \<lparr>events = [Called getDemo, Called Now], toCleanup = []\<rparr> =
     (Inl (Err ''Error'' ''No frames extracted''),
      \<lparr>events = [Called getDemo, Called Now, Called (Mkdir ''./tmp''), Called Now,
                 Called (Download ''bucket'' ''video.mp4'' ''./tmp/0-video.mp4''),
                 Called (Mkdir ''./tmp/frames-r1-0''),
                 Called (Ffmpeg [''-y'', ''-i'', ''./tmp/0-video.mp4'', ''-vf'', ''fps=1'',
                                 ''./tmp/frames-r1-0/frame-%06d.jpg'']),
                 Called (Readdir ''./tmp/frames-r1-0'')],
       toCleanup = [''./tmp/0-video.mp4'', ''./tmp/frames-r1-0'']\<rparr>) \<and>
   run demoConfig plainRuntime zeroEnv ''r1'' start =
     (Inr (),
      \<lparr>events = [Called getDemo, Called Now, Called (Mkdir ''./tmp''), Called Now,
                 Called (Download ''bucket'' ''video.mp4'' ''./tmp/0-video.mp4''),
                 Called (Mkdir ''./tmp/frames-r1-0''),
                 Called (Ffmpeg [''-y'', ''-i'', ''./tmp/0-video.mp4'', ''-vf'', ''fps=1'',
                                 ''./tmp/frames-r1-0/frame-%06d.jpg'']),
                 Called (Readdir ''./tmp/frames-r1-0''),
                 Called (Patch ''https://api.example/reports/r1'' ''service-key''
                           (JObj [(''result'', JObj [(''summary'', JStr ''worker failed''),
                                                     (''notes'', JStr ''No frames extracted'')]),
                                  (''status'', JStr ''failed'')])),
                 Called (Rm ''./tmp/0-video.mp4''), Called (Rm ''./tmp/frames-r1-0'')],
       toCleanup = [''./tmp/0-video.mp4'', ''./tmp/frames-r1-0'']\<rparr>) \<and>
   statusOf (fst (getReport demoConfig zeroEnv ''r1''
                    (snd (run demoConfig plainRuntime zeroEnv ''r1'' start)))) = Some (JStr ''failed'')"
proof -
  let ?sa = "\<lparr>events = [Called getDemo], toCleanup = []\<rparr>"
  let ?s = "(record_call Now ?sa)\<lparr>toCleanup := []\<rparr>"
  let ?s1 = "snd (downloadFromGCS demoConfig plainRuntime zeroEnv (JStr ''gs://bucket/video.mp4'') ?s)"
  let ?s2 = "snd (extractFrames plainRuntime zeroEnv ''./tmp/0-video.mp4'' ''./tmp/frames-r1-0''
                    (framesPerSecond demoConfig) (?s1\<lparr>toCleanup := toCleanup ?s1 @ [''./tmp/0-video.mp4'']\<rparr>))"
  have g: "getReport demoConfig zeroEnv ''r1'' start = (Inr (deepfakeReport ''pending''), ?sa)"
    by code_simp
  have ty: "getProp (deepfakeReport ''pending'') ''type'' = Some (JStr ''deepfake'')"
    and st: "getProp (deepfakeReport ''pending'') ''status'' \<noteq> Some (JStr ''completed'')"
    and fu: "getProp (deepfakeReport ''pending'') ''fileUrl'' = Some (JStr ''gs://bucket/video.mp4'')"
    and tf: "truthy (JStr ''gs://bucket/video.mp4'')"
    by (simp_all add: deepfakeReport_def)
  have rid: "''r1-0'' = ''r1'' @ ''-'' @ natToString (clock zeroEnv (events ?sa) Now)"
    by code_simp
  have fd: "''./tmp/frames-r1-0'' = pathJoin plainRuntime (tempDir demoConfig) (''frames-'' @ ''r1-0'')"
    by code_simp
  have dl: "downloadFromGCS demoConfig plainRuntime zeroEnv (JStr ''gs://bucket/video.mp4'') ?s =
      (Inr ''./tmp/0-video.mp4'', ?s1)"
    by code_simp
  have ex: "extractFrames plainRuntime zeroEnv ''./tmp/0-video.mp4'' ''./tmp/frames-r1-0''
      (framesPerSecond demoConfig) (?s1\<lparr>toCleanup := toCleanup ?s1 @ [''./tmp/0-video.mp4'']\<rparr>) =
      (Inr [], ?s2)"
    by code_simp
  have an: "analyzeDeepfake demoConfig plainRuntime zeroEnv (deepfakeReport ''pending'') ''r1-0''
     \<lparr>events = [Called getDemo, Called Now], toCleanup = []\<rparr> =
     (Inl (Err ''Error'' ''No frames extracted''),
      \<lparr>events = [Called getDemo, Called Now, Called (Mkdir ''./tmp''), Called Now,
                 Called (Download ''bucket'' ''video.mp4'' ''./tmp/0-video.mp4''),
                 Called (Mkdir ''./tmp/frames-r1-0''),
                 Called (Ffmpeg [''-y'', ''-i'', ''./tmp/0-video.mp4'', ''-vf'', ''fps=1'',
                                 ''./tmp/frames-r1-0/frame-%06d.jpg'']),
                 Called (Readdir ''./tmp/frames-r1-0'')],
       toCleanup = [''./tmp/0-video.mp4'', ''./tmp/frames-r1-0'']\<rparr>)"
    by code_simp
  have rn: "run demoConfig plainRuntime zeroEnv ''r1'' start =
     (Inr (),
      \<lparr>events = [Called getDemo, Called Now, Called (Mkdir ''./tmp''), Called Now,
                 Called (Download ''bucket'' ''video.mp4'' ''./tmp/0-video.mp4''),
                 Called (Mkdir ''./tmp/frames-r1-0''),
                 Called (Ffmpeg [''-y'', ''-i'', ''./tmp/0-video.mp4'', ''-vf'', ''fps=1'',
                                 ''./tmp/frames-r1-0/frame-%06d.jpg'']),
                 Called (Readdir ''./tmp/frames-r1-0''),
                 Called (Patch ''https://api.example/reports/r1'' ''service-key''
                           (JObj [(''result'', JObj [(''summary'', JStr ''worker failed''),
                                                     (''notes'', JStr ''No frames extracted'')]),
                                  (''status'', JStr ''failed'')])),
                 Called (Rm ''./tmp/0-video.mp4''), Called (Rm ''./tmp/frames-r1-0'')],
       toCleanup = [''./tmp/0-video.mp4'', ''./tmp/frames-r1-0'']\<rparr>)"
    by code_simp
  note th = zero_frames_fail_the_run [where cfg = demoConfig and e = zeroEnv and reportId = "''r1''"
      and ?s0.0 = start and report = "deepfakeReport ''pending''" and sa = ?sa
      and fileUrl = "JStr ''gs://bucket/video.mp4''" and runId = "''r1-0''" and rt = plainRuntime
      and framesDir = "''./tmp/frames-r1-0''" and localVideo = "''./tmp/0-video.mp4''"
      and ?s1.0 = ?s1 and ?s2.0 = ?s2]
  from th g ty st fu tf rid fd dl ex have "analyzeDeepfake demoConfig plainRuntime zeroEnv
      (deepfakeReport ''pending'') ''r1-0'' ?s =
      (Inl (Err ''Error'' ''No frames extracted''), ?s2\<lparr>toCleanup := toCleanup ?s2 @ [''./tmp/frames-r1-0'']\<rparr>)"
    by blast
  moreover have "statusOf (fst (getReport demoConfig zeroEnv ''r1''
      (snd (run demoConfig plainRuntime zeroEnv ''r1'' start)))) = Some (JStr ''failed'')"
    by code_simp
  ultimately show ?thesis using an rn by simp
qed



end
